theory Spec2Isabelle
  imports Complex_Main
begin

section \<open>FY-4B AGRI level-1 extraction and calibration (fy4b.py)\<close>

text \<open>
  A shallow embedding of \<^verbatim>\<open>src/fy4b.py\<close>. Numbers are rationals. The arithmetic of
  the calibration is exact; the arithmetic that builds the target grid rounds as binary64
  does. The one non-finite float the program produces and tests for, NaN, is \<open>None\<close> of
  \<open>rat option\<close>. Arrays are lists of rows. Every \<^verbatim>\<open>raise\<close> of the
  program and of the library calls it makes is a value of \<open>error\<close>.
\<close>

subsection \<open>Values, errors, Python primitives\<close>

type_synonym cell = "rat option"
type_synonym grid = "cell list list"

datatype error =
    KeyError
  | IndexError
  | AttributeError
  | TypeError
  | ZeroDivisionError
  | FileNotFoundError
  | IntLiteralError
  | UnpackError
  | ShapeError
  | InterpMethodError
  | CalibrationError string string

text \<open>
  \<open>IntLiteralError\<close>, \<open>UnpackError\<close>, \<open>ShapeError\<close> and \<open>InterpMethodError\<close> are the
  \<^verbatim>\<open>ValueError\<close>s of \<^verbatim>\<open>int()\<close>, of tuple unpacking, of the \<^verbatim>\<open>DataArray\<close> constructor
  and of an unknown interpolation method. \<open>CalibrationError channel_name calibration\<close> is
  the \<^verbatim>\<open>ValueError\<close> that \<^verbatim>\<open>calibrate\<close> raises itself (line 108), whose message is built
  from these two strings.
\<close>

text \<open>Python's \<^verbatim>\<open>s[i:j]\<close> and \<^verbatim>\<open>s[i:]\<close>: a negative index counts from the end, and both
  indices are clamped to the sequence.\<close>

definition py_index :: "nat \<Rightarrow> int \<Rightarrow> nat" where
  "py_index n i = (if i < 0 then nat (max (i + int n) 0) else min (nat i) n)"

definition py_slice :: "'a list \<Rightarrow> int \<Rightarrow> int \<Rightarrow> 'a list" where
  "py_slice s i j =
     (let start = py_index (length s) i; stop = py_index (length s) j
      in take (stop - start) (drop start s))"

definition py_slice_from :: "'a list \<Rightarrow> int \<Rightarrow> 'a list" where
  "py_slice_from s i = drop (py_index (length s) i) s"

text \<open>Python's \<^verbatim>\<open>int(s)\<close> on an ASCII string: surrounding whitespace (tab, line feed,
  vertical tab, form feed, carriage return, space) is dropped, one sign
  is allowed, and at least one decimal digit must follow. (The form with underscores
  between digits needs three characters and is left out: the program only converts a
  slice of two.)\<close>

definition is_digit :: "char \<Rightarrow> bool" where
  "is_digit c = (48 \<le> (of_char c :: nat) \<and> (of_char c :: nat) \<le> 57)"

definition digit_val :: "char \<Rightarrow> int" where
  "digit_val c = int (of_char c) - 48"

definition is_space :: "char \<Rightarrow> bool" where
  "is_space c = ((of_char c :: nat) \<in> {9, 10, 11, 12, 13, 32})"

definition strip :: "string \<Rightarrow> string" where
  "strip s = rev (dropWhile is_space (rev (dropWhile is_space s)))"

definition digits_val :: "string \<Rightarrow> int" where
  "digits_val ds = foldl (\<lambda>a c. 10 * a + digit_val c) 0 ds"

definition py_digits :: "string \<Rightarrow> error + int" where
  "py_digits ds = (if ds \<noteq> [] \<and> list_all is_digit ds then Inr (digits_val ds) else Inl IntLiteralError)"

definition py_int :: "string \<Rightarrow> error + int" where
  "py_int s =
     (case strip s of
        [] \<Rightarrow> Inl IntLiteralError
      | c # cs \<Rightarrow>
          if c = CHR ''-'' then map_sum id uminus (py_digits cs)
          else if c = CHR ''+'' then py_digits cs
          else py_digits (c # cs))"

subsection \<open>Arrays with metadata\<close>

text \<open>
  An \<^verbatim>\<open>xarray.DataArray\<close> of DN or physical values: the values, the name, and the two
  attributes the program reads or writes (\<^verbatim>\<open>FillValue\<close> and \<^verbatim>\<open>units\<close>). Assigning a fresh
  dictionary to \<^verbatim>\<open>attrs\<close> drops every attribute it does not list.
\<close>

record dataarray =
  da_values :: grid
  da_name :: "string option"
  FillValue :: "rat option"
  units :: "string option"

text \<open>The group \<^verbatim>\<open>/Calibration\<close> of a product: the coefficient table
  \<^verbatim>\<open>CALIBRATION_COEF(SCALE+OFFSET)\<close> (one row per channel) when the group has it, and the
  lookup curves by variable name (\<^verbatim>\<open>CALChannel07\<close>, ...).\<close>

record calibration_group =
  cal_coef :: "rat list list option"
  cal_tables :: "string \<rightharpoonup> rat list"

text \<open>\<^verbatim>\<open>a[i]\<close> on the first axis of an array: negative indices wrap once, anything else
  out of range raises.\<close>

definition py_getitem :: "'a list \<Rightarrow> int \<Rightarrow> error + 'a" where
  "py_getitem xs i =
     (let n = int (length xs); j = (if i < 0 then i + n else i)
      in if 0 \<le> j \<and> j < n then Inr (xs ! nat j) else Inl IndexError)"

text \<open>The DN value that an entry has after line 95: the fill value where it was NaN.\<close>

definition dn_or_fill :: "rat \<Rightarrow> cell \<Rightarrow> rat" where
  "dn_or_fill f c = (case c of None \<Rightarrow> f | Some x \<Rightarrow> x)"

definition fillna :: "rat \<Rightarrow> grid \<Rightarrow> grid" where
  "fillna f g = map (map (\<lambda>c. case c of None \<Rightarrow> Some f | Some x \<Rightarrow> Some x)) g"

text \<open>\<^verbatim>\<open>g.where(g != f)\<close>: entries equal to \<open>f\<close> become NaN.\<close>

definition where_ne :: "rat \<Rightarrow> grid \<Rightarrow> grid" where
  "where_ne f g = map (map (\<lambda>c. if c \<noteq> Some f then c else None)) g"

text \<open>\<^verbatim>\<open>k * g + b\<close>, elementwise; NaN stays NaN.\<close>

definition scale_offset :: "rat \<Rightarrow> rat \<Rightarrow> grid \<Rightarrow> grid" where
  "scale_offset k b g = map (map (map_option (\<lambda>x. k * x + b))) g"

text \<open>Arithmetic on an array keeps its values' positions and drops its attributes (the
  library's default); \<^verbatim>\<open>fillna\<close> and \<^verbatim>\<open>where\<close> keep them.\<close>

text \<open>
  \<^verbatim>\<open>cal_table.interp(dn=x)\<close> for one sample \<open>x\<close>. The call names no method, so the
  library's default applies: linear interpolation. The curve is a one-dimensional variable
  of the product without a coordinate of its own, so position \<open>i\<close> of the table is the
  point \<open>dn = i\<close>. Outside \<open>[0, n - 1]\<close>, and at NaN, the result is NaN.
\<close>

definition interp_linear :: "rat list \<Rightarrow> cell \<Rightarrow> cell" where
  "interp_linear tbl c =
     (case c of
        None \<Rightarrow> None
      | Some x \<Rightarrow>
          if 0 \<le> x \<and> x \<le> rat_of_int (int (length tbl)) - 1 then
            (let i = nat \<lfloor>x\<rfloor>; t = x - rat_of_int \<lfloor>x\<rfloor>
             in if t = 0 then Some (tbl ! i)
                else Some (tbl ! i + t * (tbl ! Suc i - tbl ! i)))
          else None)"

subsection \<open>The calibration engine: \<^verbatim>\<open>calibrate\<close> (lines 87 to 110)\<close>

definition calibrate ::
  "calibration_group \<Rightarrow> string \<Rightarrow> string \<Rightarrow> dataarray \<Rightarrow> error + dataarray" where
  "calibrate cal channel_name calibration dn_values =
     (if calibration = ''dn'' then
        Inr (dn_values\<lparr>FillValue := None, units := Some ''DN''\<rparr>)
      else
        case py_int (py_slice_from channel_name (- 2)) of
          Inl e \<Rightarrow> Inl e
        | Inr channel_num \<Rightarrow>
           (case FillValue dn_values of
              None \<Rightarrow> Inl AttributeError
            | Some fv \<Rightarrow>
               (let dn = fillna fv (da_values dn_values) in
                if (calibration = ''reflectance'' \<and> channel_num \<le> 6) \<or>
                   (calibration = ''radiance'' \<and> channel_num > 6) then
                  (case cal_coef cal of
                     None \<Rightarrow> Inl KeyError
                   | Some rows \<Rightarrow>
                      (case py_getitem rows (channel_num - 1) of
                         Inl e \<Rightarrow> Inl e
                       | Inr [k, b] \<Rightarrow>
                           Inr \<lparr>da_values = scale_offset k b (where_ne fv dn),
                                da_name = Some (channel_name @ ''_'' @ calibration),
                                FillValue = None,
                                units = Some (if calibration = ''reflectance'' then ''100%''
                                              else ''mW/ (m2 cm-1 sr)'')\<rparr>
                       | Inr _ \<Rightarrow> Inl UnpackError))
                else if calibration = ''brightness_temperature'' \<and> channel_num > 6 then
                  (case cal_tables cal (''CAL'' @ channel_name) of
                     None \<Rightarrow> Inl KeyError
                   | Some cal_table \<Rightarrow>
                       Inr \<lparr>da_values = map (map (interp_linear cal_table)) dn,
                            da_name = Some (channel_name @ ''_'' @ calibration),
                            FillValue = None,
                            units = Some ''K''\<rparr>)
                else Inl (CalibrationError channel_name calibration))))"

subsection \<open>Vocabulary of the specification\<close>

text \<open>The (channel ordinal, requested quantity) pairs for which a calibration is defined,
  and the unit tag of each quantity, as the specification lists them.\<close>

definition calibration_defined :: "int \<Rightarrow> string \<Rightarrow> bool" where
  "calibration_defined n q =
     (q = ''dn'' \<or> (q = ''reflectance'' \<and> 1 \<le> n \<and> n \<le> 6) \<or>
      ((q = ''radiance'' \<or> q = ''brightness_temperature'') \<and> 6 < n))"

text \<open>The calibration data a request reads: nothing for raw DN, the channel's lookup curve
  for brightness temperature, the channel's row of two coefficients otherwise.\<close>

definition has_calibration_data :: "calibration_group \<Rightarrow> string \<Rightarrow> int \<Rightarrow> string \<Rightarrow> bool" where
  "has_calibration_data cal channel_name n q =
     (if q = ''dn'' then True
      else if q = ''brightness_temperature'' then cal_tables cal (''CAL'' @ channel_name) \<noteq> None
      else (case cal_coef cal of
              None \<Rightarrow> False
            | Some rows \<Rightarrow> (case py_getitem rows (n - 1) of Inr [k, b] \<Rightarrow> True | _ \<Rightarrow> False)))"

definition unit_tag :: "string \<Rightarrow> string" where
  "unit_tag q =
     (if q = ''dn'' then ''DN''
      else if q = ''reflectance'' then ''100%''
      else if q = ''radiance'' then ''mW/ (m2 cm-1 sr)''
      else if q = ''brightness_temperature'' then ''K''
      else [])"


subsection \<open>The target grid: \<^verbatim>\<open>set_geo_desc\<close> (lines 47 to 60)\<close>

text \<open>
  The numbers of lines 52 to 54 are binary64 floats, and the claims about the axes turn on
  their rounding, so this part of the model rounds as the machine does. A float is a
  rational that \<open>fl\<close> leaves unchanged; every arithmetic operation is the exact operation
  followed by \<open>fl\<close>, rounding to the nearest float, a tie going to the even mantissa.
  A Python \<^verbatim>\<open>int\<close> in \<^verbatim>\<open>geo_desc\<close> stands for the float of the same value. Overflow,
  subnormal numbers and NaN are outside this model of the arithmetic.
\<close>

definition pow2 :: "int \<Rightarrow> rat" where
  "pow2 e = (if 0 \<le> e then 2 ^ nat e else 1 / 2 ^ nat (- e))"

text \<open>\<open>normalize k y 0\<close> scales a positive \<open>y\<close> by powers of two into the range of a 53-bit
  mantissa, \<open>2^52 \<le> y' < 2^53\<close>, and returns it with the exponent; \<open>k\<close> bounds the number of
  steps, and 2200 steps reach every exponent of the format.\<close>

fun normalize :: "nat \<Rightarrow> rat \<Rightarrow> int \<Rightarrow> rat \<times> int" where
  "normalize 0 y e = (y, e)"
| "normalize (Suc k) y e =
     (if y < 4503599627370496 then normalize k (2 * y) (e - 1)
      else if 9007199254740992 \<le> y then normalize k (y / 2) (e + 1)
      else (y, e))"

definition round_half_even :: "rat \<Rightarrow> int" where
  "round_half_even y =
     (let m = \<lfloor>y\<rfloor>; r = y - rat_of_int m
      in if r < 1 / 2 then m else if 1 / 2 < r then m + 1
         else if even m then m else m + 1)"

definition fl :: "rat \<Rightarrow> rat" where
  "fl x =
     (if x = 0 then 0
      else case normalize 2200 \<bar>x\<bar> 0 of
             (y, e) \<Rightarrow> sgn x * rat_of_int (round_half_even y) * pow2 e)"

text \<open>
  \<^verbatim>\<open>numpy.arange(start, stop, step)\<close> on floats. The length is
  \<open>ceil((stop - start) / step)\<close>, computed in floats, and a zero step raises in that
  division. The first value is \<open>start\<close>, the second \<open>start + step\<close>, and with
  \<open>delta = (start + step) - start\<close> the value at position \<open>i \<ge> 2\<close> is \<open>start + i * delta\<close>.
\<close>

definition arange :: "rat \<Rightarrow> rat \<Rightarrow> rat \<Rightarrow> error + rat list" where
  "arange start stop step =
     (if step = 0 then Inl ZeroDivisionError
      else
        (let n = nat \<lceil>fl (fl (stop - start) / step)\<rceil>;
             second = fl (start + step);
             delta = fl (second - start)
         in Inr (take n (start # second #
                          map (\<lambda>i. fl (start + fl (rat_of_nat i * delta))) [2..<n]))))"

text \<open>Lines 52 to 54: the five numbers of \<^verbatim>\<open>geo_desc\<close> times 1000 (not rounded to
  integers), the latitude axis from north to south and the longitude axis from west to
  east, both divided by 1000 again.\<close>

definition geo_axes :: "rat list \<Rightarrow> error + (rat list \<times> rat list)" where
  "geo_axes geo_desc =
     (case map (\<lambda>x. fl (1000 * x)) geo_desc of
        [lat_S, lat_N, lon_W, lon_E, step] \<Rightarrow>
          (case arange lat_N (fl (lat_S - 1)) (- step) of
             Inl e \<Rightarrow> Inl e
           | Inr lat \<Rightarrow>
              (case arange lon_W (fl (lon_E + 1)) step of
                 Inl e \<Rightarrow> Inl e
               | Inr lon \<Rightarrow>
                   Inr (map (\<lambda>x. fl (x / 1000)) lat, map (\<lambda>x. fl (x / 1000)) lon)))
      | _ \<Rightarrow> Inl UnpackError)"

text \<open>\<^verbatim>\<open>numpy.meshgrid(lon, lat)\<close>: two arrays with one row per latitude and one column
  per longitude.\<close>

definition meshgrid :: "rat list \<Rightarrow> rat list \<Rightarrow> rat list list \<times> rat list list" where
  "meshgrid lon lat = (map (\<lambda>y. lon) lat, map (\<lambda>y. map (\<lambda>x. y) lon) lat)"

definition has_shape :: "'a list list \<Rightarrow> nat \<Rightarrow> nat \<Rightarrow> bool" where
  "has_shape g m n = (length g = m \<and> list_all (\<lambda>r. length r = n) g)"

text \<open>
  \<^verbatim>\<open>latlon2linecolumn\<close> comes from the module \<^verbatim>\<open>projection\<close>, which is not among the
  sources: it is a parameter of the model, a function from the latitude mesh, the
  longitude mesh and the resolution to the line and column arrays, which may raise.
\<close>

type_synonym projection =
  "rat list list \<Rightarrow> rat list list \<Rightarrow> string \<Rightarrow> error + (grid \<times> grid)"

text \<open>The cached \<^verbatim>\<open>line\<close> and \<^verbatim>\<open>column\<close> arrays: values over the coordinates \<^verbatim>\<open>lat\<close> and
  \<^verbatim>\<open>lon\<close>. The \<^verbatim>\<open>DataArray\<close> constructor raises when the values do not have one row per
  latitude and one column per longitude.\<close>

record geo_array =
  ga_values :: grid
  ga_lat :: "rat list"
  ga_lon :: "rat list"
  ga_name :: string

definition new_geo_array :: "grid \<Rightarrow> rat list \<Rightarrow> rat list \<Rightarrow> string \<Rightarrow> error + geo_array" where
  "new_geo_array v lat lon nm =
     (if has_shape v (length lat) (length lon)
      then Inr \<lparr>ga_values = v, ga_lat = lat, ga_lon = lon, ga_name = nm\<rparr>
      else Inl ShapeError)"

text \<open>The instance: the open groups \<^verbatim>\<open>/Data\<close> and \<^verbatim>\<open>/Calibration\<close>, the resolution, the
  line and column window of the product, and the cached grid.\<close>

record fy4b =
  ds :: "string \<rightharpoonup> dataarray"
  cal :: calibration_group
  resolution :: string
  line_begin :: int
  line_end :: int
  column_begin :: int
  column_end :: int
  line :: "geo_array option"
  column :: "geo_array option"
  geo_desc :: "rat list option"

text \<open>
  \<^verbatim>\<open>set_geo_desc\<close> returns the instance as it leaves it and the exception raised, if any.
  Up to line 57 a raise leaves the instance as it was; line 58 assigns \<^verbatim>\<open>self.line\<close>, so a
  raise of the constructor call of line 59 leaves the new \<^verbatim>\<open>line\<close> beside the old
  \<^verbatim>\<open>column\<close> and \<^verbatim>\<open>geo_desc\<close>. The list \<^verbatim>\<open>geo_desc\<close> is a value here: a caller that later
  mutates the list it passed is outside the model.
\<close>

definition set_geo_desc ::
  "projection \<Rightarrow> fy4b \<Rightarrow> rat list option \<Rightarrow> fy4b \<times> error option" where
  "set_geo_desc latlon2linecolumn self g =
     (case g of
        None \<Rightarrow> (self\<lparr>line := None, column := None, geo_desc := None\<rparr>, None)
      | Some gd \<Rightarrow>
         (case geo_axes gd of
            Inl e \<Rightarrow> (self, Some e)
          | Inr (lat, lon) \<Rightarrow>
             (case meshgrid lon lat of
                (lon_mesh, lat_mesh) \<Rightarrow>
                 (case latlon2linecolumn lat_mesh lon_mesh (resolution self) of
                    Inl e \<Rightarrow> (self, Some e)
                  | Inr (line_values, column_values) \<Rightarrow>
                     (case new_geo_array line_values lat lon ''line'' of
                        Inl e \<Rightarrow> (self, Some e)
                      | Inr line_array \<Rightarrow>
                         (case new_geo_array column_values lat lon ''column'' of
                            Inl e \<Rightarrow> (self\<lparr>line := Some line_array\<rparr>, Some e)
                          | Inr column_array \<Rightarrow>
                              (self\<lparr>line := Some line_array,
                                    column := Some column_array,
                                    geo_desc := Some gd\<rparr>, None)))))))"

subsection \<open>Construction: \<^verbatim>\<open>__init__\<close> (lines 23 to 37) and the tables of lines 7 to 15\<close>





text \<open>A product file as \<^verbatim>\<open>xarray.open_dataset\<close> presents it: the attributes of the root
  group, the variables of \<^verbatim>\<open>/Data\<close> and the group \<^verbatim>\<open>/Calibration\<close>. The file system maps a
  path to the product stored there.\<close>

record product =
  root_attrs :: "string \<rightharpoonup> int"
  data_group :: "string \<rightharpoonup> dataarray"
  cal_group :: calibration_group

text \<open>When \<^verbatim>\<open>set_geo_desc\<close> raises in the constructor, no instance is returned.\<close>

definition FY4B_AGRI_L1 ::
  "projection \<Rightarrow> (string \<rightharpoonup> product) \<Rightarrow> string \<Rightarrow> rat list option \<Rightarrow> error + fy4b" where
  "FY4B_AGRI_L1 latlon2linecolumn fs file_path g =
     (case fs file_path of
        None \<Rightarrow> Inl FileNotFoundError
      | Some pr \<Rightarrow>
         (case root_attrs pr ''Begin Line Number'' of
            None \<Rightarrow> Inl KeyError
          | Some lb \<Rightarrow>
             (case root_attrs pr ''End Line Number'' of
                None \<Rightarrow> Inl KeyError
              | Some le \<Rightarrow>
                 (case root_attrs pr ''Begin Pixel Number'' of
                    None \<Rightarrow> Inl KeyError
                  | Some cb \<Rightarrow>
                     (case root_attrs pr ''End Pixel Number'' of
                        None \<Rightarrow> Inl KeyError
                      | Some ce \<Rightarrow>
                         (case set_geo_desc latlon2linecolumn
                                 \<lparr>ds = data_group pr, cal = cal_group pr,
                                  resolution = py_slice file_path (- 15) (- 10),
                                  line_begin = lb, line_end = le,
                                  column_begin = cb, column_end = ce,
                                  line = None, column = None, geo_desc = None\<rparr> g of
                            (self, None) \<Rightarrow> Inr self
                          | (self, Some e) \<Rightarrow> Inl e))))))"

subsection \<open>Extraction: \<^verbatim>\<open>extract\<close> (lines 62 to 85)\<close>

text \<open>Truth value of \<^verbatim>\<open>geo_desc\<close> in a condition: \<^verbatim>\<open>None\<close> and the empty list are false.\<close>

definition truthy :: "rat list option \<Rightarrow> bool" where
  "truthy g = (case g of None \<Rightarrow> False | Some xs \<Rightarrow> xs \<noteq> [])"

text \<open>
  \<^verbatim>\<open>dn_values.interp(line=..., column=..., method=...)\<close> is the array library's: a
  parameter of the model, taking the method, the line and column coordinates of the raw
  array, its values, and the arrays of target lines and target columns.
\<close>

type_synonym resampler =
  "string \<Rightarrow> int list \<Rightarrow> int list \<Rightarrow> grid \<Rightarrow> grid \<Rightarrow> grid \<Rightarrow> error + grid"

text \<open>Lines 72 to 84: the DN array that is handed to \<^verbatim>\<open>calibrate\<close>.\<close>

definition extract_dn_values ::
  "resampler \<Rightarrow> fy4b \<Rightarrow> string \<Rightarrow> string \<Rightarrow> error + dataarray" where
  "extract_dn_values interp self channel_name interp_method =
     (case ds self (''NOM'' @ channel_name) of
        None \<Rightarrow> Inl KeyError
      | Some dn \<Rightarrow>
         (let line_coords = [line_begin self..line_end self];
              column_coords = [column_begin self..column_end self]
          in if \<not> has_shape (da_values dn) (length line_coords) (length column_coords)
             then Inl ShapeError
             else if truthy (geo_desc self) then
               (case (line self, column self) of
                  (Some line_array, Some column_array) \<Rightarrow>
                    (case interp interp_method line_coords column_coords (da_values dn)
                            (ga_values line_array) (ga_values column_array) of
                       Inl e \<Rightarrow> Inl e
                     | Inr v \<Rightarrow> Inr (dn\<lparr>da_values := v\<rparr>))
                | _ \<Rightarrow> Inl TypeError)
             else Inr dn))"

text \<open>\<^verbatim>\<open>extract\<close> (named \<open>extract_channel\<close> here, \<open>extract\<close> being a command of the
  prover) may replace the cached grid, so it returns the instance as well. When
  \<^verbatim>\<open>set_geo_desc\<close> raises, the instance is as that call left it.\<close>

definition extract_channel ::
  "projection \<Rightarrow> resampler \<Rightarrow> fy4b \<Rightarrow> string \<Rightarrow> string \<Rightarrow> rat list option \<Rightarrow> string
     \<Rightarrow> fy4b \<times> (error + dataarray)" where
  "extract_channel latlon2linecolumn interp self channel_name calibration g interp_method =
     (case (if truthy g \<and> g \<noteq> geo_desc self
            then set_geo_desc latlon2linecolumn self g else (self, None)) of
        (self', Some e) \<Rightarrow> (self', Inl e)
      | (self', None) \<Rightarrow>
          (self',
           case extract_dn_values interp self' channel_name interp_method of
             Inl e \<Rightarrow> Inl e
           | Inr dn_values \<Rightarrow> calibrate (cal self') channel_name calibration dn_values))"

text \<open>The call with keyword arguments left out (\<open>None\<close>): the defaults of the signature
  (lines 62 and 63) are \<^verbatim>\<open>'reflectance'\<close> and \<^verbatim>\<open>'nearest'\<close>.\<close>

definition extract_with_defaults ::
  "projection \<Rightarrow> resampler \<Rightarrow> fy4b \<Rightarrow> string \<Rightarrow> string option \<Rightarrow> rat list option
     \<Rightarrow> string option \<Rightarrow> fy4b \<times> (error + dataarray)" where
  "extract_with_defaults latlon2linecolumn interp self channel_name calibration g interp_method =
     extract_channel latlon2linecolumn interp self channel_name
       (case calibration of None \<Rightarrow> ''reflectance'' | Some c \<Rightarrow> c) g
       (case interp_method of None \<Rightarrow> ''nearest'' | Some m \<Rightarrow> m)"

text \<open>The cache is consistent when the cached arrays are the ones \<^verbatim>\<open>set_geo_desc\<close> computes
  for the cached \<^verbatim>\<open>geo_desc\<close>; \<^verbatim>\<open>set_geo_desc\<close> is the only writer of the three attributes.\<close>

definition cache_consistent :: "projection \<Rightarrow> fy4b \<Rightarrow> bool" where
  "cache_consistent latlon2linecolumn self =
     (case geo_desc self of
        None \<Rightarrow> True
      | Some gd \<Rightarrow> set_geo_desc latlon2linecolumn self (Some gd) = (self, None))"

subsection \<open>Concrete inputs\<close>

text \<open>A small product used where a property is evaluated on a concrete input: two
  coefficient rows, and a five-point lookup curve for channel 7.\<close>

definition demo_cal :: calibration_group where
  "demo_cal = \<lparr>cal_coef = Some [[2, 1], [3, 10]],
               cal_tables = [''CALChannel07'' \<mapsto> [10, 20, 30, 40, 50]]\<rparr>"

definition demo_dn :: "string \<Rightarrow> rat \<Rightarrow> grid \<Rightarrow> dataarray" where
  "demo_dn nm fv g = \<lparr>da_values = g, da_name = Some nm, FillValue = Some fv, units = None\<rparr>"

text \<open>
  Stand-ins for the two parameters, for concrete inputs only. The projection maps a
  latitude to the line of the same number and a longitude to the column of the same
  number. The resampler takes, for the method \<^verbatim>\<open>nearest\<close>, the sample at the nearest line
  and column (a half goes to the lower index), and for \<^verbatim>\<open>linear\<close> the bilinear mean of the
  four neighbours; outside the window of the raw array, and at NaN, it gives NaN.
\<close>

definition demo_projection :: projection where
  "demo_projection lat_mesh lon_mesh res = Inr (map (map Some) lat_mesh, map (map Some) lon_mesh)"

definition axis_position :: "int list \<Rightarrow> rat \<Rightarrow> (nat \<times> rat) option" where
  "axis_position coords x =
     (if coords = [] \<or> x < rat_of_int (hd coords) \<or> rat_of_int (last coords) < x then None
      else Some (nat (\<lfloor>x\<rfloor> - hd coords), x - rat_of_int \<lfloor>x\<rfloor>))"

definition lerp :: "rat \<Rightarrow> cell \<Rightarrow> cell \<Rightarrow> cell" where
  "lerp t a b =
     (if t = 0 then a
      else case (a, b) of (Some p, Some q) \<Rightarrow> Some (p + t * (q - p)) | _ \<Rightarrow> None)"

definition sample :: "string \<Rightarrow> int list \<Rightarrow> int list \<Rightarrow> grid \<Rightarrow> cell \<Rightarrow> cell \<Rightarrow> cell" where
  "sample m line_coords column_coords dn l c =
     (case (l, c) of
        (Some x, Some y) \<Rightarrow>
          (case (axis_position line_coords x, axis_position column_coords y) of
             (Some (i, t), Some (j, u)) \<Rightarrow>
               if m = ''nearest'' then
                 dn ! (if t \<le> 1 / 2 then i else Suc i) ! (if u \<le> 1 / 2 then j else Suc j)
               else
                 lerp t (lerp u (dn ! i ! j) (dn ! i ! Suc j))
                        (lerp u (dn ! Suc i ! j) (dn ! Suc i ! Suc j))
           | _ \<Rightarrow> None)
      | _ \<Rightarrow> None)"

definition demo_interp :: resampler where
  "demo_interp m line_coords column_coords dn target_lines target_columns =
     (if m \<noteq> ''nearest'' \<and> m \<noteq> ''linear'' then Inl InterpMethodError
      else Inr (map (\<lambda>(ls, cs). map (\<lambda>(l, c). sample m line_coords column_coords dn l c)
                                   (zip ls cs))
                  (zip target_lines target_columns)))"

text \<open>A product of two lines and two columns, stored under two paths: one whose name
  carries the resolution \<^verbatim>\<open>4000M\<close>, one whose name carries \<^verbatim>\<open>9999M\<close>.\<close>

definition demo_product :: product where
  "demo_product =
     \<lparr>root_attrs = [''Begin Line Number'' \<mapsto> 0, ''End Line Number'' \<mapsto> 1,
                    ''Begin Pixel Number'' \<mapsto> 0, ''End Pixel Number'' \<mapsto> 1],
      data_group = [''NOMChannel02'' \<mapsto>
                      demo_dn ''NOMChannel02'' 65535 [[Some 1, Some 2], [Some 3, Some 4]]],
      cal_group = demo_cal\<rparr>"

definition demo_fs :: "string \<rightharpoonup> product" where
  "demo_fs = [''FY4B_4000M_V0001.HDF'' \<mapsto> demo_product,
              ''FY4B_9999M_V0001.HDF'' \<mapsto> demo_product]"

definition demo_instance :: fy4b where
  "demo_instance =
     \<lparr>ds = data_group demo_product, cal = cal_group demo_product, resolution = ''4000M'',
      line_begin = 0, line_end = 1, column_begin = 0, column_end = 1,
      line = None, column = None, geo_desc = None\<rparr>"

text \<open>The same instance with the grid \<open>[0, 1, 0, 1, 1]\<close> cached.\<close>

definition demo_cached :: fy4b where
  "demo_cached =
     demo_instance
       \<lparr>line := Some \<lparr>ga_values = [[Some 1, Some 1], [Some 0, Some 0]],
                      ga_lat = [1, 0], ga_lon = [0, 1], ga_name = ''line''\<rparr>,
        column := Some \<lparr>ga_values = [[Some 0, Some 1], [Some 0, Some 1]],
                        ga_lat = [1, 0], ga_lon = [0, 1], ga_name = ''column''\<rparr>,
        geo_desc := Some [0, 1, 0, 1, 1]\<rparr>"

text \<open>Open the product with the grid \<open>g0\<close>, then extract the raw DN of channel 2 with the
  grid \<open>g\<close> and the default method: the values obtained.\<close>

definition demo_extract :: "rat list option \<Rightarrow> rat list option \<Rightarrow> error + grid" where
  "demo_extract g0 g =
     (case FY4B_AGRI_L1 demo_projection demo_fs ''FY4B_4000M_V0001.HDF'' g0 of
        Inl e \<Rightarrow> Inl e
      | Inr self \<Rightarrow>
          map_sum id da_values
            (snd (extract_channel demo_projection demo_interp self ''Channel02'' ''dn'' g ''nearest'')))"
section \<open>Properties\<close>

subsection \<open>The branches of \<^verbatim>\<open>calibrate\<close>\<close>

lemma linear_cell:
  assumes "i < length g" "j < length (g ! i)"
  shows "scale_offset k b (where_ne fv (fillna fv g)) ! i ! j =
         (case g ! i ! j of None \<Rightarrow> None | Some x \<Rightarrow> if x = fv then None else Some (k * x + b))"
  using assms by (simp add: scale_offset_def where_ne_def fillna_def split: option.splits)

lemma lookup_cell:
  assumes "i < length g" "j < length (g ! i)"
  shows "map (map (interp_linear tbl)) (fillna fv g) ! i ! j =
         interp_linear tbl (Some (case g ! i ! j of None \<Rightarrow> fv | Some x \<Rightarrow> x))"
  using assms by (simp add: fillna_def split: option.splits)

lemma interp_linear_between:
  assumes "Suc p < length tbl" "0 \<le> t" "t < 1"
  shows "interp_linear tbl (Some (rat_of_nat p + t)) = Some (tbl ! p + t * (tbl ! Suc p - tbl ! p))"
proof -
  have fl: "\<lfloor>rat_of_nat p + t\<rfloor> = int p"
    using assms(2,3) by (simp add: floor_unique)
  have rng: "rat_of_nat p + t \<le> rat_of_int (int (length tbl)) - 1"
  proof -
    have "Suc (Suc p) \<le> length tbl" using assms(1) by simp
    then have "rat_of_nat (Suc (Suc p)) \<le> rat_of_nat (length tbl)"
      by (simp only: of_nat_le_iff)
    then show ?thesis using assms(3) by simp
  qed
  show ?thesis
    using assms(2) rng unfolding interp_linear_def by (simp add: fl Let_def)
qed


lemma calibrate_dn:
  "calibrate cg channel_name ''dn'' dn_values =
     Inr (dn_values\<lparr>FillValue := None, units := Some ''DN''\<rparr>)"
  by (simp add: calibrate_def)

lemma calibrate_linear:
  assumes "py_int (py_slice_from channel_name (- 2)) = Inr n"
    and "FillValue dn_values = Some fv"
    and "(q = ''reflectance'' \<and> n \<le> 6) \<or> (q = ''radiance'' \<and> 6 < n)"
    and "cal_coef cg = Some rows" and "py_getitem rows (n - 1) = Inr [k, b]"
  shows "calibrate cg channel_name q dn_values =
     Inr \<lparr>da_values = scale_offset k b (where_ne fv (fillna fv (da_values dn_values))),
          da_name = Some (channel_name @ ''_'' @ q),
          FillValue = None,
          units = Some (if q = ''reflectance'' then ''100%'' else ''mW/ (m2 cm-1 sr)'')\<rparr>"
proof -
  have "q \<noteq> ''dn''" using assms(3) by auto
  then show ?thesis
    using assms unfolding calibrate_def by (simp add: Let_def)
qed

lemma calibrate_linear_no_calibration_error:
  assumes "py_int (py_slice_from channel_name (- 2)) = Inr n"
    and "FillValue dn_values = Some fv"
    and "(q = ''reflectance'' \<and> n \<le> 6) \<or> (q = ''radiance'' \<and> 6 < n)"
  shows "calibrate cg channel_name q dn_values \<noteq> Inl (CalibrationError channel_name q)"
proof -
  have ndn: "q \<noteq> ''dn''" using assms(3) by auto
  show ?thesis
  proof (cases "cal_coef cg")
    case None
    then show ?thesis using assms ndn unfolding calibrate_def by (simp add: Let_def)
  next
    case (Some rows)
    show ?thesis
    proof (cases "py_getitem rows (n - 1)")
      case (Inl e)
      then have "e = IndexError" by (simp add: py_getitem_def Let_def split: if_splits)
      then show ?thesis using assms ndn Some Inl unfolding calibrate_def by (simp add: Let_def)
    next
      case (Inr row)
      then show ?thesis using assms ndn Some unfolding calibrate_def
        by (simp add: Let_def split: list.splits)
    qed
  qed
qed

lemma calibrate_lookup:
  assumes "py_int (py_slice_from channel_name (- 2)) = Inr n"
    and "FillValue dn_values = Some fv" and "6 < n"
    and "cal_tables cg (''CAL'' @ channel_name) = Some tbl"
  shows "calibrate cg channel_name ''brightness_temperature'' dn_values =
     Inr \<lparr>da_values = map (map (interp_linear tbl)) (fillna fv (da_values dn_values)),
          da_name = Some (channel_name @ ''_'' @ ''brightness_temperature''),
          FillValue = None,
          units = Some ''K''\<rparr>"
  using assms unfolding calibrate_def by (simp add: Let_def)

lemma calibrate_lookup_no_calibration_error:
  assumes "py_int (py_slice_from channel_name (- 2)) = Inr n"
    and "FillValue dn_values = Some fv" and "6 < n"
  shows "calibrate cg channel_name ''brightness_temperature'' dn_values
           \<noteq> Inl (CalibrationError channel_name ''brightness_temperature'')"
  using assms unfolding calibrate_def by (simp add: Let_def split: option.splits)

lemma calibrate_undefined:
  assumes "py_int (py_slice_from channel_name (- 2)) = Inr n"
    and "FillValue dn_values = Some fv"
    and "q \<noteq> ''dn''"
    and "\<not> ((q = ''reflectance'' \<and> n \<le> 6) \<or> (q = ''radiance'' \<and> 6 < n))"
    and "\<not> (q = ''brightness_temperature'' \<and> 6 < n)"
  shows "calibrate cg channel_name q dn_values = Inl (CalibrationError channel_name q)"
proof -
  have "calibrate cg channel_name q dn_values =
    (let dn = fillna fv (da_values dn_values) in Inl (CalibrationError channel_name q))"
    unfolding calibrate_def
    by (simp only: assms if_False sum.case option.case Let_def)
  then show ?thesis by (simp add: Let_def)
qed


lemma channel02_num: "py_int (py_slice_from ''Channel02'' (- 2)) = Inr 2"
  by (simp add: py_int_def py_slice_from_def py_index_def strip_def py_digits_def
      is_digit_def is_space_def digits_val_def digit_val_def)

lemma channel07_num: "py_int (py_slice_from ''Channel07'' (- 2)) = Inr 7"
  by (simp add: py_int_def py_slice_from_def py_index_def strip_def py_digits_def
      is_digit_def is_space_def digits_val_def digit_val_def)

lemma calibrate_Inr_cases:
  assumes "calibrate cg channel_name q dn_values = Inr r" and "q \<noteq> ''dn''"
  shows "units r = Some (unit_tag q) \<and> da_name r = Some (channel_name @ ''_'' @ q)"
proof (cases "py_int (py_slice_from channel_name (- 2))")
  case (Inl e)
  then show ?thesis using assms unfolding calibrate_def by simp
next
  case (Inr n)
  show ?thesis
  proof (cases "FillValue dn_values")
    case None
    then show ?thesis using assms Inr unfolding calibrate_def by simp
  next
    case (Some fv)
    consider (lin) "(q = ''reflectance'' \<and> n \<le> 6) \<or> (q = ''radiance'' \<and> 6 < n)"
      | (bt) "q = ''brightness_temperature''" "6 < n"
      | (undef) "\<not> ((q = ''reflectance'' \<and> n \<le> 6) \<or> (q = ''radiance'' \<and> 6 < n))"
          "\<not> (q = ''brightness_temperature'' \<and> 6 < n)"
      by blast
    then show ?thesis
    proof cases
      case lin
      show ?thesis
      proof (cases "cal_coef cg")
        case None
        then show ?thesis using assms Inr Some lin unfolding calibrate_def
          by (simp add: Let_def)
      next
        case rows: (Some rows)
        show ?thesis
        proof (cases "py_getitem rows (n - 1)")
          case (Inl e)
          then show ?thesis using assms Inr Some lin rows unfolding calibrate_def
            by (simp add: Let_def)
        next
          case row: (Inr row)
          have "\<exists>k b. row = [k, b]"
            using assms Inr Some lin rows row unfolding calibrate_def
            by (simp add: Let_def split: list.splits)
          then obtain k b where "row = [k, b]" by blast
          then have "r = \<lparr>da_values = scale_offset k b (where_ne fv (fillna fv (da_values dn_values))),
              da_name = Some (channel_name @ ''_'' @ q), FillValue = None,
              units = Some (if q = ''reflectance'' then ''100%'' else ''mW/ (m2 cm-1 sr)'')\<rparr>"
            using calibrate_linear [OF Inr Some lin rows] row assms(1) by simp
          then show ?thesis using lin by (auto simp: unit_tag_def)
        qed
      qed
    next
      case bt
      show ?thesis
      proof (cases "cal_tables cg (''CAL'' @ channel_name)")
        case None
        then show ?thesis using assms Inr Some bt unfolding calibrate_def
          by (simp add: Let_def)
      next
        case tbl: (Some tbl)
        show ?thesis
          using calibrate_lookup [OF Inr Some bt(2) tbl] assms(1) bt(1)
          by (auto simp: unit_tag_def)
      qed
    next
      case undef
      then show ?thesis using calibrate_undefined [OF Inr Some assms(2) undef] assms(1) by simp
    qed
  qed
qed



lemma interp_linear_at:
  assumes "p < length tbl"
  shows "interp_linear tbl (Some (rat_of_nat p)) = Some (tbl ! p)"
proof -
  have "rat_of_nat (Suc p) \<le> rat_of_nat (length tbl)"
    using assms by (simp only: of_nat_le_iff Suc_le_eq)
  then have "rat_of_nat p \<le> rat_of_int (int (length tbl)) - 1" by simp
  then show ?thesis by (simp add: interp_linear_def)
qed

lemma interp_linear_outside:
  assumes "d < 0 \<or> rat_of_nat (length tbl) - 1 < d"
  shows "interp_linear tbl (Some d) = None"
  using assms by (auto simp: interp_linear_def)

subsection \<open>Evaluating the float arithmetic\<close>

lemma normalize_unfold:
  "0 < k \<Longrightarrow> normalize k y e =
     (if y < 4503599627370496 then normalize (k - 1) (2 * y) (e - 1)
      else if 9007199254740992 \<le> y then normalize (k - 1) (y / 2) (e + 1)
      else (y, e))"
  by (cases k) simp_all

lemma floor_numeral_div:
  "\<lfloor>(numeral a :: rat) / numeral b\<rfloor> = numeral a div numeral b"
  "\<lfloor>- (numeral a :: rat) / numeral b\<rfloor> = (- numeral a) div numeral b"
  "\<lfloor>- ((numeral a :: rat) / numeral b)\<rfloor> = (- numeral a) div numeral b"
  using floor_divide_of_int_eq [of "numeral a" "numeral b", where ?'a = rat]
    floor_divide_of_int_eq [of "- numeral a" "numeral b", where ?'a = rat]
  by simp_all

lemma ceiling_numeral_div:
  "\<lceil>(numeral a :: rat) / numeral b\<rceil> = - ((- numeral a) div numeral b)"
  "\<lceil>- (numeral a :: rat) / numeral b\<rceil> = - (numeral a div numeral b)"
  "\<lceil>- ((numeral a :: rat) / numeral b)\<rceil> = - (numeral a div numeral b)"
  using floor_numeral_div [of a b] by (simp_all add: ceiling_def)

lemmas float_eval = fl_def normalize_unfold round_half_even_def pow2_def Let_def
  floor_numeral_div ceiling_numeral_div

lemma demo_axes1: "geo_axes [0, 1, 0, 1, 1] = Inr ([1, 0], [0, 1])"
  by (simp add: geo_axes_def arange_def float_eval)

subsection \<open>Construction and the cached grid\<close>

lemma set_geo_desc_Some:
  assumes "geo_axes gd = Inr (lat, lon)"
  shows "set_geo_desc P self (Some gd) =
     (case P (map (\<lambda>y. map (\<lambda>x. y) lon) lat) (map (\<lambda>y. lon) lat) (resolution self) of
        Inl e \<Rightarrow> (self, Some e)
      | Inr (line_values, column_values) \<Rightarrow>
          if has_shape line_values (length lat) (length lon) then
            if has_shape column_values (length lat) (length lon) then
              (self\<lparr>line := Some \<lparr>ga_values = line_values, ga_lat = lat, ga_lon = lon,
                                    ga_name = ''line''\<rparr>,
                    column := Some \<lparr>ga_values = column_values, ga_lat = lat, ga_lon = lon,
                                      ga_name = ''column''\<rparr>,
                    geo_desc := Some gd\<rparr>, None)
            else (self\<lparr>line := Some \<lparr>ga_values = line_values, ga_lat = lat, ga_lon = lon,
                                         ga_name = ''line''\<rparr>\<rparr>, Some ShapeError)
          else (self, Some ShapeError))"
  using assms
  by (simp add: set_geo_desc_def meshgrid_def new_geo_array_def split: sum.splits prod.splits)

lemma set_geo_desc_frame:
  assumes "set_geo_desc P self g = (self', r)"
  shows "resolution self' = resolution self \<and> ds self' = ds self \<and> cal self' = cal self \<and>
         line_begin self' = line_begin self \<and> line_end self' = line_end self \<and>
         column_begin self' = column_begin self \<and> column_end self' = column_end self \<and>
         (r = None \<longrightarrow> geo_desc self' = g)"
  using assms
  by (auto simp: set_geo_desc_def new_geo_array_def
      split: option.splits sum.splits prod.splits if_splits)






subsection \<open>Extraction and the cached grid\<close>

lemma set_geo_desc_overwrite:
  "snd (set_geo_desc P (self\<lparr>line := l, column := c, geo_desc := x\<rparr>) g)
     = snd (set_geo_desc P self g) \<and>
   (snd (set_geo_desc P self g) = None \<longrightarrow>
     fst (set_geo_desc P (self\<lparr>line := l, column := c, geo_desc := x\<rparr>) g)
       = fst (set_geo_desc P self g))"
proof (cases g)
  case None
  then show ?thesis by (simp add: set_geo_desc_def)
next
  case (Some gd)
  show ?thesis
  proof (cases "geo_axes gd")
    case (Inl e)
    then show ?thesis using Some by (simp add: set_geo_desc_def)
  next
    case (Inr axes)
    obtain lat lon where axes: "geo_axes gd = Inr (lat, lon)" using Inr by (cases axes) simp
    show ?thesis
      unfolding Some set_geo_desc_Some [OF axes]
      by (simp split: sum.splits prod.splits)
  qed
qed

lemma extract_no_update:
  assumes "\<not> (truthy g \<and> g \<noteq> geo_desc self)"
  shows "extract_channel P R self ch q g m =
     (self, case extract_dn_values R self ch m of
              Inl e \<Rightarrow> Inl e
            | Inr dn_values \<Rightarrow> calibrate (cal self) ch q dn_values)"
  using assms by (auto simp: extract_channel_def)

lemma extract_update:
  assumes "truthy g" "g \<noteq> geo_desc self"
  shows "extract_channel P R self ch q g m =
     (case set_geo_desc P self g of
        (self', Some e) \<Rightarrow> (self', Inl e)
      | (self', None) \<Rightarrow>
          (self', case extract_dn_values R self' ch m of
                    Inl e \<Rightarrow> Inl e
                  | Inr dn_values \<Rightarrow> calibrate (cal self') ch q dn_values))"
  using assms by (simp add: extract_channel_def)

lemma extract_supplied:
  assumes "truthy g" "cache_consistent P self"
  shows "snd (extract_channel P R self ch q g m) =
     (case set_geo_desc P self g of
        (self', Some e) \<Rightarrow> Inl e
      | (self', None) \<Rightarrow>
          (case extract_dn_values R self' ch m of
             Inl e \<Rightarrow> Inl e
           | Inr dn_values \<Rightarrow> calibrate (cal self') ch q dn_values))"
proof (cases "g = geo_desc self")
  case True
  obtain gd where gd: "g = Some gd" using assms(1) by (cases g) (simp_all add: truthy_def)
  have "geo_desc self = Some gd" using True gd by simp
  then have "set_geo_desc P self (Some gd) = (self, None)"
    using assms(2) by (simp add: cache_consistent_def)
  then have "set_geo_desc P self g = (self, None)" using gd by simp
  then show ?thesis using True by (simp add: extract_no_update)
next
  case False
  then show ?thesis
    using assms(1) by (simp add: extract_update split: prod.splits option.splits)
qed

lemma extract_state_independent:
  "fst (extract_channel P R self ch q g m) = fst (extract_channel P R' self ch q' g m')"
  by (simp add: extract_channel_def split: prod.splits option.splits)

lemma extract_method_cong:
  assumes "\<And>lc cc v tl tc. R m lc cc v tl tc = R m' lc cc v tl tc"
  shows "extract_channel P R self ch q g m = extract_channel P R self ch q g m'"
proof -
  have eq: "R m = R m'" by (intro ext) (rule assms)
  have "extract_dn_values R st ch m = extract_dn_values R st ch m'" for st
    unfolding extract_dn_values_def eq by (rule refl)
  then show ?thesis unfolding extract_channel_def by (simp only:)
qed

lemma extract_native_method:
  assumes "\<not> truthy g" "\<not> truthy (geo_desc self)"
  shows "extract_channel P R self ch q g m = extract_channel P R self ch q g m'"
  using assms
  by (simp add: extract_no_update extract_dn_values_def Let_def split: option.splits)

subsection \<open>The concrete instance\<close>

lemma demo_set_geo_desc:
  "set_geo_desc demo_projection demo_instance (Some [0, 1, 0, 1, 1]) = (demo_cached, None)"
  by (simp add: set_geo_desc_Some [OF demo_axes1] demo_projection_def has_shape_def
      demo_cached_def)

lemma demo_cached_consistent: "cache_consistent demo_projection demo_cached"
proof -
  have "set_geo_desc demo_projection demo_cached (Some [0, 1, 0, 1, 1]) = (demo_cached, None)"
    by (simp add: set_geo_desc_Some [OF demo_axes1] demo_projection_def has_shape_def
      demo_cached_def)
  then show ?thesis by (simp add: cache_consistent_def demo_cached_def)
qed

lemma demo_instance_consistent: "cache_consistent demo_projection demo_instance"
  by (simp add: cache_consistent_def demo_instance_def)

lemma demo_resample:
  "demo_interp ''nearest'' [0..1] [0..1] [[Some 1, Some 2], [Some 3, Some 4]]
     [[Some 1, Some 1], [Some 0, Some 0]] [[Some 0, Some 1], [Some 0, Some 1]]
   = Inr [[Some 3, Some 4], [Some 1, Some 2]]"
  by code_simp


lemma demo_cached_constructed:
  "FY4B_AGRI_L1 demo_projection demo_fs ''FY4B_4000M_V0001.HDF'' (Some [0, 1, 0, 1, 1])
     = Inr demo_cached"
proof -
  have "FY4B_AGRI_L1 demo_projection demo_fs ''FY4B_4000M_V0001.HDF'' (Some [0, 1, 0, 1, 1])
      = (case set_geo_desc demo_projection demo_instance (Some [0, 1, 0, 1, 1]) of
           (self, None) \<Rightarrow> Inr self | (self, Some e) \<Rightarrow> Inl e)"
    by (simp add: FY4B_AGRI_L1_def demo_fs_def demo_product_def demo_instance_def
        py_slice_def py_index_def)
  then show ?thesis by (simp add: demo_set_geo_desc)
qed


lemma demo_instance_constructed:
  "FY4B_AGRI_L1 demo_projection demo_fs ''FY4B_4000M_V0001.HDF'' None = Inr demo_instance"
  by (simp add: FY4B_AGRI_L1_def demo_fs_def demo_product_def demo_instance_def
      py_slice_def py_index_def set_geo_desc_def)

lemma demo_window: "[0..1::int] = [0, 1]"
  by (simp add: upto.simps)

lemma demo_extract_cached:
  "snd (extract_channel demo_projection demo_interp demo_cached ''Channel02'' ''dn'' None
          ''nearest'')
     = Inr \<lparr>da_values = [[Some 3, Some 4], [Some 1, Some 2]], da_name = Some ''NOMChannel02'',
            FillValue = None, units = Some ''DN''\<rparr>"
proof -
  have "extract_dn_values demo_interp demo_cached ''Channel02'' ''nearest''
      = Inr (demo_dn ''NOMChannel02'' 65535 [[Some 1, Some 2], [Some 3, Some 4]]
               \<lparr>da_values := [[Some 3, Some 4], [Some 1, Some 2]]\<rparr>)"
    by (simp add: extract_dn_values_def demo_cached_def demo_instance_def demo_product_def
        demo_dn_def has_shape_def truthy_def demo_window [symmetric] demo_resample)
  then show ?thesis
    by (simp add: extract_no_update truthy_def calibrate_dn demo_dn_def)
qed

lemma demo_extract_native:
  "snd (extract_channel demo_projection demo_interp demo_instance ''Channel02'' ''dn'' None
          ''nearest'')
     = Inr \<lparr>da_values = [[Some 1, Some 2], [Some 3, Some 4]], da_name = Some ''NOMChannel02'',
            FillValue = None, units = Some ''DN''\<rparr>"
proof -
  have "extract_dn_values demo_interp demo_instance ''Channel02'' ''nearest''
      = Inr (demo_dn ''NOMChannel02'' 65535 [[Some 1, Some 2], [Some 3, Some 4]])"
    by (simp add: extract_dn_values_def demo_instance_def demo_product_def
        demo_dn_def has_shape_def truthy_def demo_window)
  then show ?thesis
    by (simp add: extract_no_update truthy_def calibrate_dn demo_dn_def)
qed
subsection \<open>Calibration: names, units, errors, linearity, lookup\<close>

text \<open>
  Claim C8, as amended. A successful \<^verbatim>\<open>calibrate\<close> returns the unit tag of the requested
  quantity (\<^verbatim>\<open>DN\<close>, \<^verbatim>\<open>100%\<close>, \<^verbatim>\<open>mW/ (m2 cm-1 sr)\<close> or \<^verbatim>\<open>K\<close>). For reflectance, radiance
  and brightness temperature the result is named \<^verbatim>\<open>{channel_name}_{calibration}\<close>. The raw-DN
  request returns before the naming statement (line 93): its result is the input array
  with its own name and values.
\<close>

theorem calibrate_name_and_unit:
  assumes "calibrate cg channel_name q dn_values = Inr r"
  shows "units r = Some (unit_tag q) \<and>
         (q \<noteq> ''dn'' \<longrightarrow> da_name r = Some (channel_name @ ''_'' @ q)) \<and>
         (q = ''dn'' \<longrightarrow> da_name r = da_name dn_values \<and> da_values r = da_values dn_values)"
proof (cases "q = ''dn''")
  case True
  then show ?thesis using assms by (auto simp: calibrate_dn unit_tag_def)
next
  case False
  then show ?thesis using calibrate_Inr_cases [OF assms False] by simp
qed

text \<open>Reflectance of channel 2 at DN 5, with the coefficient row \<open>[3, 10]\<close>.\<close>

theorem calibrate_name_and_unit_witness:
  "calibrate demo_cal ''Channel02'' ''reflectance'' (demo_dn ''NOMChannel02'' 65535 [[Some 5]])
     = Inr \<lparr>da_values = [[Some 25]], da_name = Some ''Channel02_reflectance'',
            FillValue = None, units = Some ''100%''\<rparr> \<and>
   units \<lparr>da_values = [[Some 25]], da_name = Some ''Channel02_reflectance'',
            FillValue = None, units = Some ''100%''\<rparr> = Some (unit_tag ''reflectance'') \<and>
   da_name \<lparr>da_values = [[Some 25]], da_name = Some ''Channel02_reflectance'',
            FillValue = None, units = Some ''100%''\<rparr> = Some (''Channel02'' @ ''_'' @ ''reflectance'')"
proof -
  have c: "calibrate demo_cal ''Channel02'' ''reflectance'' (demo_dn ''NOMChannel02'' 65535 [[Some 5]])
     = Inr \<lparr>da_values = [[Some 25]], da_name = Some ''Channel02_reflectance'',
            FillValue = None, units = Some ''100%''\<rparr>"
    by (simp add: calibrate_def channel02_num demo_cal_def demo_dn_def py_getitem_def
        fillna_def where_ne_def scale_offset_def)
  show ?thesis using calibrate_name_and_unit [OF c] c by simp
qed

text \<open>
  Claim C8 as stated fails for the raw-DN passthrough: the array read from the variable
  \<^verbatim>\<open>NOMChannel02\<close> comes back under that name, not as \<^verbatim>\<open>Channel02_dn\<close>.
\<close>

theorem calibrate_dn_name_counterexample:
  "calibrate demo_cal ''Channel02'' ''dn'' (demo_dn ''NOMChannel02'' 65535 [[Some 5]])
     = Inr \<lparr>da_values = [[Some 5]], da_name = Some ''NOMChannel02'',
            FillValue = None, units = Some ''DN''\<rparr> \<and>
   ''NOMChannel02'' \<noteq> ''Channel02'' @ ''_'' @ ''dn''"
  by (simp add: calibrate_def demo_dn_def)



text \<open>
  Claim C2, as amended. For a channel with ordinal \<open>n\<close> in 1..6 whose coefficient row
  \<open>[k, b]\<close> is row \<open>n\<close> of the table (index \<open>n - 1\<close>, line 98), a reflectance request
  succeeds, every entry \<open>d\<close> of the DN grid other than the fill value comes out as
  \<open>k * d + b\<close>, and the unit tag is \<^verbatim>\<open>100%\<close>. For channel ordinal 2 that row is the second
  row of the table.
\<close>

theorem calibrate_reflectance_linear:
  assumes "py_int (py_slice_from channel_name (- 2)) = Inr n" and "1 \<le> n" and "n \<le> 6"
    and "cal_coef cg = Some rows" and "nat (n - 1) < length rows"
    and "rows ! nat (n - 1) = [k, b]"
    and "FillValue dn_values = Some fv"
    and "i < length (da_values dn_values)" and "j < length (da_values dn_values ! i)"
    and "da_values dn_values ! i ! j = Some d" and "d \<noteq> fv"
  shows "\<exists>r. calibrate cg channel_name ''reflectance'' dn_values = Inr r \<and>
             da_values r ! i ! j = Some (k * d + b) \<and> units r = Some ''100%''"
proof -
  have row: "py_getitem rows (n - 1) = Inr [k, b]"
    using assms(2,5,6) by (simp add: py_getitem_def Let_def)
  have lin: "(''reflectance'' = ''reflectance'' \<and> n \<le> 6) \<or> (''reflectance'' = ''radiance'' \<and> 6 < n)"
    using assms(3) by simp
  have "calibrate cg channel_name ''reflectance'' dn_values =
     Inr \<lparr>da_values = scale_offset k b (where_ne fv (fillna fv (da_values dn_values))),
          da_name = Some (channel_name @ ''_'' @ ''reflectance''),
          FillValue = None,
          units = Some ''100%''\<rparr>"
    using calibrate_linear [OF assms(1) assms(7) lin assms(4) row] by simp
  moreover have "scale_offset k b (where_ne fv (fillna fv (da_values dn_values))) ! i ! j
      = Some (k * d + b)"
    using linear_cell [OF assms(8,9), of k b fv] assms(10,11) by simp
  ultimately show ?thesis by simp
qed

text \<open>Channel 2 at DN 5, fill value 65535: the second row \<open>[3, 10]\<close> gives 25.\<close>

theorem calibrate_reflectance_linear_witness:
  "py_int (py_slice_from ''Channel02'' (- 2)) = Inr 2 \<and> (1::int) \<le> 2 \<and> (2::int) \<le> 6 \<and>
   cal_coef demo_cal = Some [[2, 1], [3, 10]] \<and>
   nat (2 - 1) < length [[2, 1], [3, 10 :: rat]] \<and>
   [[2, 1], [3, 10 :: rat]] ! nat (2 - 1) = [3, 10] \<and>
   FillValue (demo_dn ''NOMChannel02'' 65535 [[Some 5]]) = Some 65535 \<and>
   da_values (demo_dn ''NOMChannel02'' 65535 [[Some 5]]) ! 0 ! 0 = Some 5 \<and>
   (5 :: rat) \<noteq> 65535 \<and>
   (\<exists>r. calibrate demo_cal ''Channel02'' ''reflectance'' (demo_dn ''NOMChannel02'' 65535 [[Some 5]]) = Inr r \<and>
        da_values r ! 0 ! 0 = Some (3 * 5 + 10) \<and> units r = Some ''100%'')"
proof -
  have h4: "cal_coef demo_cal = Some [[2, 1], [3, 10]]" by (simp add: demo_cal_def)
  have h5: "nat (2 - 1) < length [[2, 1], [3, 10 :: rat]]" by simp
  have h6: "[[2, 1], [3, 10 :: rat]] ! nat (2 - 1) = [3, 10]" by simp
  have h7: "FillValue (demo_dn ''NOMChannel02'' 65535 [[Some 5]]) = Some 65535"
    by (simp add: demo_dn_def)
  have h8: "0 < length (da_values (demo_dn ''NOMChannel02'' 65535 [[Some 5]]))"
    by (simp add: demo_dn_def)
  have h9: "0 < length (da_values (demo_dn ''NOMChannel02'' 65535 [[Some 5]]) ! 0)"
    by (simp add: demo_dn_def)
  have h10: "da_values (demo_dn ''NOMChannel02'' 65535 [[Some 5]]) ! 0 ! 0 = Some 5"
    by (simp add: demo_dn_def)
  have h11: "(5 :: rat) \<noteq> 65535" by simp
  show ?thesis
    using calibrate_reflectance_linear [OF channel02_num _ _ h4 h5 h6 h7 h8 h9 h10 h11]
      channel02_num h4 h7 h10
    by simp
qed

text \<open>
  Claim C2 as stated takes the coefficients of channel ordinal 2 from the first row of
  the table. With the rows \<open>[2, 1]\<close> and \<open>[3, 10]\<close> and DN 5 the program returns
  \<open>3 * 5 + 10\<close>, the value of the second row, and not \<open>2 * 5 + 1\<close>.
\<close>

theorem calibrate_reflectance_first_row_counterexample:
  "cal_coef demo_cal = Some [[2, 1], [3, 10]] \<and>
   calibrate demo_cal ''Channel02'' ''reflectance'' (demo_dn ''NOMChannel02'' 65535 [[Some 5]])
     = Inr \<lparr>da_values = [[Some (3 * 5 + 10)]], da_name = Some ''Channel02_reflectance'',
            FillValue = None, units = Some ''100%''\<rparr> \<and>
   (3 * 5 + 10 :: rat) \<noteq> 2 * 5 + 1"
  by (simp add: calibrate_def channel02_num demo_cal_def demo_dn_def py_getitem_def
      fillna_def where_ne_def scale_offset_def)

text \<open>
  Claim C3. For a channel name ending in its ordinal \<open>n \<ge> 1\<close> and a DN grid that carries
  its fill value, \<^verbatim>\<open>calibrate\<close> raises its own error (line 108) exactly for the pairs
  outside the defined set (raw DN for any channel, reflectance for ordinals 1..6, radiance
  or brightness temperature for ordinals above 6); inside the set, with the channel's
  coefficient row and lookup curve present in the product, it returns a result.
\<close>

theorem calibrate_error_iff_defined:
  assumes "py_int (py_slice_from channel_name (- 2)) = Inr n" and "1 \<le> n"
    and "FillValue dn_values = Some fv"
  shows "(calibrate cg channel_name q dn_values = Inl (CalibrationError channel_name q))
           = (\<not> calibration_defined n q) \<and>
         (calibration_defined n q \<and> has_calibration_data cg channel_name n q
            \<longrightarrow> (\<exists>r. calibrate cg channel_name q dn_values = Inr r))"
proof -
  consider (dn) "q = ''dn''"
    | (lin) "(q = ''reflectance'' \<and> n \<le> 6) \<or> (q = ''radiance'' \<and> 6 < n)"
    | (bt) "q = ''brightness_temperature''" "6 < n"
    | (undef) "q \<noteq> ''dn''"
        "\<not> ((q = ''reflectance'' \<and> n \<le> 6) \<or> (q = ''radiance'' \<and> 6 < n))"
        "\<not> (q = ''brightness_temperature'' \<and> 6 < n)"
    by blast
  then show ?thesis
  proof cases
    case dn
    then show ?thesis by (simp add: calibrate_dn calibration_defined_def)
  next
    case lin
    have d: "calibration_defined n q" using lin assms(2) by (auto simp: calibration_defined_def)
    have ne: "calibrate cg channel_name q dn_values \<noteq> Inl (CalibrationError channel_name q)"
      by (rule calibrate_linear_no_calibration_error [OF assms(1) assms(3) lin])
    have ok: "\<exists>r. calibrate cg channel_name q dn_values = Inr r"
      if "has_calibration_data cg channel_name n q"
    proof -
      have "q \<noteq> ''dn''" "q \<noteq> ''brightness_temperature''" using lin by auto
      with that obtain rows k b where
        "cal_coef cg = Some rows" "py_getitem rows (n - 1) = Inr [k, b]"
        by (auto simp: has_calibration_data_def split: option.splits sum.splits list.splits)
      then show ?thesis using calibrate_linear [OF assms(1) assms(3) lin] by blast
    qed
    show ?thesis using d ne ok by blast
  next
    case bt
    have d: "calibration_defined n q" using bt by (simp add: calibration_defined_def)
    have ne: "calibrate cg channel_name q dn_values \<noteq> Inl (CalibrationError channel_name q)"
      using calibrate_lookup_no_calibration_error [OF assms(1) assms(3) bt(2)] bt(1) by simp
    have ok: "\<exists>r. calibrate cg channel_name q dn_values = Inr r"
      if "has_calibration_data cg channel_name n q"
    proof -
      from that obtain tbl where "cal_tables cg (''CAL'' @ channel_name) = Some tbl"
        using bt(1) by (auto simp: has_calibration_data_def)
      then show ?thesis using calibrate_lookup [OF assms(1) assms(3) bt(2)] bt(1) by blast
    qed
    show ?thesis using d ne ok by blast
  next
    case undef
    have d: "\<not> calibration_defined n q" using undef by (auto simp: calibration_defined_def)
    show ?thesis using d calibrate_undefined [OF assms(1) assms(3) undef] by simp
  qed
qed

text \<open>Reflectance for the thermal channel 7 raises; reflectance for channel 2, whose
  coefficient row the product has, returns.\<close>

theorem calibrate_error_iff_defined_witness:
  "py_int (py_slice_from ''Channel07'' (- 2)) = Inr 7 \<and> (1::int) \<le> 7 \<and>
   py_int (py_slice_from ''Channel02'' (- 2)) = Inr 2 \<and> (1::int) \<le> 2 \<and>
   FillValue (demo_dn ''NOMChannel07'' 65535 [[Some 5]]) = Some 65535 \<and>
   \<not> calibration_defined 7 ''reflectance'' \<and>
   calibrate demo_cal ''Channel07'' ''reflectance'' (demo_dn ''NOMChannel07'' 65535 [[Some 5]])
     = Inl (CalibrationError ''Channel07'' ''reflectance'') \<and>
   calibration_defined 2 ''reflectance'' \<and>
   has_calibration_data demo_cal ''Channel02'' 2 ''reflectance'' \<and>
   (\<exists>r. calibrate demo_cal ''Channel02'' ''reflectance''
          (demo_dn ''NOMChannel07'' 65535 [[Some 5]]) = Inr r)"
proof -
  have h3: "FillValue (demo_dn ''NOMChannel07'' 65535 [[Some 5]]) = Some 65535"
    by (simp add: demo_dn_def)
  have h4: "\<not> calibration_defined 7 ''reflectance''" by (simp add: calibration_defined_def)
  have h5: "calibration_defined 2 ''reflectance''" by (simp add: calibration_defined_def)
  have h6: "has_calibration_data demo_cal ''Channel02'' 2 ''reflectance''"
    by (simp add: has_calibration_data_def demo_cal_def py_getitem_def)
  have raises: "calibrate demo_cal ''Channel07'' ''reflectance''
      (demo_dn ''NOMChannel07'' 65535 [[Some 5]]) = Inl (CalibrationError ''Channel07'' ''reflectance'')"
    using calibrate_error_iff_defined [OF channel07_num _ h3, of demo_cal "''reflectance''"] h4
    by simp
  have returns: "\<exists>r. calibrate demo_cal ''Channel02'' ''reflectance''
          (demo_dn ''NOMChannel07'' 65535 [[Some 5]]) = Inr r"
    using calibrate_error_iff_defined [OF channel02_num _ h3, of demo_cal "''reflectance''"] h5 h6
    by simp
  show ?thesis
    using channel07_num channel02_num h3 h4 h5 h6 raises returns by simp
qed

text \<open>
  Claim C4, as amended. For an emissive channel (ordinal above 6) a brightness-temperature
  request interpolates the channel's lookup curve at the DN values and tags the result
  with \<^verbatim>\<open>K\<close>. The interpolation is always linear: \<^verbatim>\<open>calibrate\<close> takes no method, and its
  call \<^verbatim>\<open>cal_table.interp(dn=dn_values)\<close> (line 104) names none. The result has the shape of
  the DN grid. A DN value \<open>p + t\<close> between the table positions \<open>p\<close> and \<open>p + 1\<close>
  (\<open>0 \<le> t < 1\<close>) gives \<open>tbl[p] + t * (tbl[p + 1] - tbl[p])\<close>; a DN value that is a table
  position \<open>p\<close>, the last one included, gives \<open>tbl[p]\<close>; a DN value below 0 or above the
  last position gives NaN; a NaN entry counts as the fill value (line 95). The option
  \<^verbatim>\<open>interp_method\<close> belongs to \<^verbatim>\<open>extract\<close>, where it defaults to \<^verbatim>\<open>nearest\<close>, and reaches the
  spatial resampling only (line 80): it has no part in the state \<^verbatim>\<open>extract\<close> leaves, two
  methods on which the resampler agrees give the same result, and without a grid in
  effect every method gives the same result.
\<close>

theorem calibrate_brightness_temperature_linear:
  assumes "py_int (py_slice_from channel_name (- 2)) = Inr n" and "6 < n"
    and "cal_tables cg (''CAL'' @ channel_name) = Some tbl"
    and "FillValue dn_values = Some fv"
  shows "(\<exists>r. calibrate cg channel_name ''brightness_temperature'' dn_values = Inr r \<and>
            units r = Some ''K'' \<and>
            length (da_values r) = length (da_values dn_values) \<and>
            (\<forall>i. i < length (da_values dn_values) \<longrightarrow>
                 length (da_values r ! i) = length (da_values dn_values ! i)) \<and>
            (\<forall>i j p t. i < length (da_values dn_values) \<and> j < length (da_values dn_values ! i) \<and>
                 dn_or_fill fv (da_values dn_values ! i ! j) = rat_of_nat p + t \<and>
                 0 \<le> t \<and> t < 1 \<and> Suc p < length tbl \<longrightarrow>
                 da_values r ! i ! j = Some (tbl ! p + t * (tbl ! Suc p - tbl ! p))) \<and>
            (\<forall>i j p. i < length (da_values dn_values) \<and> j < length (da_values dn_values ! i) \<and>
                 dn_or_fill fv (da_values dn_values ! i ! j) = rat_of_nat p \<and> p < length tbl \<longrightarrow>
                 da_values r ! i ! j = Some (tbl ! p)) \<and>
            (\<forall>i j. i < length (da_values dn_values) \<and> j < length (da_values dn_values ! i) \<and>
                 (dn_or_fill fv (da_values dn_values ! i ! j) < 0 \<or>
                  rat_of_nat (length tbl) - 1 < dn_or_fill fv (da_values dn_values ! i ! j)) \<longrightarrow>
                 da_values r ! i ! j = None)) \<and>
         extract_with_defaults P R self ch (Some q) g None
           = extract_channel P R self ch q g ''nearest'' \<and>
         extract_with_defaults P R self ch (Some q) g (Some m) = extract_channel P R self ch q g m \<and>
         fst (extract_channel P R self ch q g m) = fst (extract_channel P R' self ch q g m') \<and>
         ((\<forall>lc cc v tl tc. R m lc cc v tl tc = R m' lc cc v tl tc) \<longrightarrow>
            extract_channel P R self ch q g m = extract_channel P R self ch q g m') \<and>
         (\<not> truthy g \<and> \<not> truthy (geo_desc self) \<longrightarrow>
            extract_channel P R self ch q g m = extract_channel P R self ch q g m')"
proof -
  define r where "r = \<lparr>da_values = map (map (interp_linear tbl)) (fillna fv (da_values dn_values)),
          da_name = Some (channel_name @ ''_'' @ ''brightness_temperature''),
          FillValue = None, units = Some ''K''\<rparr>"
  have ret: "calibrate cg channel_name ''brightness_temperature'' dn_values = Inr r"
    unfolding r_def by (rule calibrate_lookup [OF assms(1) assms(4) assms(2) assms(3)])
  have u: "units r = Some ''K''" by (simp add: r_def)
  have len: "length (da_values r) = length (da_values dn_values)"
    by (simp add: r_def fillna_def)
  have row: "length (da_values r ! i) = length (da_values dn_values ! i)"
    if "i < length (da_values dn_values)" for i
    using that by (simp add: r_def fillna_def)
  have cell: "da_values r ! i ! j = interp_linear tbl (Some (dn_or_fill fv (da_values dn_values ! i ! j)))"
    if "i < length (da_values dn_values)" "j < length (da_values dn_values ! i)" for i j
    using lookup_cell [OF that, of tbl fv] by (simp add: r_def dn_or_fill_def)
  have between: "da_values r ! i ! j = Some (tbl ! p + t * (tbl ! Suc p - tbl ! p))"
    if "i < length (da_values dn_values) \<and> j < length (da_values dn_values ! i) \<and>
        dn_or_fill fv (da_values dn_values ! i ! j) = rat_of_nat p + t \<and>
        0 \<le> t \<and> t < 1 \<and> Suc p < length tbl" for i j p t
    using that cell [of i j] interp_linear_between [of p tbl t] by simp
  have at: "da_values r ! i ! j = Some (tbl ! p)"
    if "i < length (da_values dn_values) \<and> j < length (da_values dn_values ! i) \<and>
        dn_or_fill fv (da_values dn_values ! i ! j) = rat_of_nat p \<and> p < length tbl" for i j p
    using that cell [of i j] interp_linear_at [of p tbl] by simp
  have outside: "da_values r ! i ! j = None"
    if "i < length (da_values dn_values) \<and> j < length (da_values dn_values ! i) \<and>
        (dn_or_fill fv (da_values dn_values ! i ! j) < 0 \<or>
         rat_of_nat (length tbl) - 1 < dn_or_fill fv (da_values dn_values ! i ! j))" for i j
    using that cell [of i j]
      interp_linear_outside [of "dn_or_fill fv (da_values dn_values ! i ! j)" tbl] by simp
  have lookup: "\<exists>r. calibrate cg channel_name ''brightness_temperature'' dn_values = Inr r \<and>
            units r = Some ''K'' \<and>
            length (da_values r) = length (da_values dn_values) \<and>
            (\<forall>i. i < length (da_values dn_values) \<longrightarrow>
                 length (da_values r ! i) = length (da_values dn_values ! i)) \<and>
            (\<forall>i j p t. i < length (da_values dn_values) \<and> j < length (da_values dn_values ! i) \<and>
                 dn_or_fill fv (da_values dn_values ! i ! j) = rat_of_nat p + t \<and>
                 0 \<le> t \<and> t < 1 \<and> Suc p < length tbl \<longrightarrow>
                 da_values r ! i ! j = Some (tbl ! p + t * (tbl ! Suc p - tbl ! p))) \<and>
            (\<forall>i j p. i < length (da_values dn_values) \<and> j < length (da_values dn_values ! i) \<and>
                 dn_or_fill fv (da_values dn_values ! i ! j) = rat_of_nat p \<and> p < length tbl \<longrightarrow>
                 da_values r ! i ! j = Some (tbl ! p)) \<and>
            (\<forall>i j. i < length (da_values dn_values) \<and> j < length (da_values dn_values ! i) \<and>
                 (dn_or_fill fv (da_values dn_values ! i ! j) < 0 \<or>
                  rat_of_nat (length tbl) - 1 < dn_or_fill fv (da_values dn_values ! i ! j)) \<longrightarrow>
                 da_values r ! i ! j = None)"
    apply (rule exI [of _ r])
    apply (intro conjI allI impI)
          apply (rule ret)
         apply (rule u)
        apply (rule len)
       apply (erule row)
      apply (erule between)
     apply (erule at)
    apply (erule outside)
    done
  have d1: "extract_with_defaults P R self ch (Some q) g None
           = extract_channel P R self ch q g ''nearest''"
    by (simp add: extract_with_defaults_def)
  have d2: "extract_with_defaults P R self ch (Some q) g (Some m)
           = extract_channel P R self ch q g m"
    by (simp add: extract_with_defaults_def)
  have st: "fst (extract_channel P R self ch q g m) = fst (extract_channel P R' self ch q g m')"
    by (rule extract_state_independent)
  have cong: "extract_channel P R self ch q g m = extract_channel P R self ch q g m'"
    if "\<forall>lc cc v tl tc. R m lc cc v tl tc = R m' lc cc v tl tc"
    by (rule extract_method_cong) (simp add: that)
  have native: "extract_channel P R self ch q g m = extract_channel P R self ch q g m'"
    if "\<not> truthy g \<and> \<not> truthy (geo_desc self)"
    using that by (intro extract_native_method) simp_all
  show ?thesis
    apply (intro conjI impI)
         apply (rule lookup)
        apply (rule d1)
       apply (rule d2)
      apply (rule st)
     apply (erule cong)
    apply (erule native)
    done
qed

text \<open>Channel 7 on the curve 10, 20, 30, 40, 50 with fill value 65535: DN 3/2 lies halfway
  between 20 and 30, DN 4 is the last point, DN 5 and the NaN entry (taken as 65535) lie
  beyond it. On the instance without a grid, the methods \<^verbatim>\<open>nearest\<close> (the default) and
  \<^verbatim>\<open>linear\<close> return the same.\<close>

theorem calibrate_brightness_temperature_linear_witness:
  "py_int (py_slice_from ''Channel07'' (- 2)) = Inr 7 \<and> (6::int) < 7 \<and>
   cal_tables demo_cal (''CAL'' @ ''Channel07'') = Some [10, 20, 30, 40, 50] \<and>
   FillValue (demo_dn ''NOMChannel07'' 65535 [[Some (3 / 2), Some 4, Some 5, None]]) = Some 65535 \<and>
   (\<exists>r. calibrate demo_cal ''Channel07'' ''brightness_temperature''
          (demo_dn ''NOMChannel07'' 65535 [[Some (3 / 2), Some 4, Some 5, None]]) = Inr r \<and>
        units r = Some ''K'' \<and> length (da_values r) = 1 \<and> length (da_values r ! 0) = 4 \<and>
        da_values r ! 0 ! 0 = Some 25 \<and> da_values r ! 0 ! 1 = Some 50 \<and>
        da_values r ! 0 ! 2 = None \<and> da_values r ! 0 ! 3 = None) \<and>
   \<not> truthy None \<and> \<not> truthy (geo_desc demo_instance) \<and>
   extract_with_defaults demo_projection demo_interp demo_instance ''Channel02''
       (Some ''reflectance'') None None
     = extract_channel demo_projection demo_interp demo_instance ''Channel02'' ''reflectance''
         None ''linear''"
proof -
  let ?dn = "demo_dn ''NOMChannel07'' 65535 [[Some (3 / 2), Some 4, Some 5, None]]"
  have h3: "cal_tables demo_cal (''CAL'' @ ''Channel07'') = Some [10, 20, 30, 40, 50]"
    by (simp add: demo_cal_def)
  have h4: "FillValue ?dn = Some 65535" by (simp add: demo_dn_def)
  have v: "da_values ?dn = [[Some (3 / 2), Some 4, Some 5, None]]" by (simp add: demo_dn_def)
  have t1: "\<not> truthy None" and t2: "\<not> truthy (geo_desc demo_instance)"
    by (simp_all add: truthy_def demo_instance_def)
  note T = calibrate_brightness_temperature_linear [OF channel07_num _ h3 h4,
      where P = demo_projection and R = demo_interp and self = demo_instance
        and ch = "''Channel02''" and q = "''reflectance''" and g = None
        and m = "''nearest''" and m' = "''linear''" and R' = demo_interp]
  have T0: "(6::int) < 7" by simp
  from T [OF T0, THEN conjunct1] obtain r where
    ret: "calibrate demo_cal ''Channel07'' ''brightness_temperature'' ?dn = Inr r" and
    u: "units r = Some ''K''" and
    len: "length (da_values r) = length (da_values ?dn)" and
    row: "\<forall>i. i < length (da_values ?dn) \<longrightarrow>
            length (da_values r ! i) = length (da_values ?dn ! i)" and
    between: "\<forall>i j p t. i < length (da_values ?dn) \<and> j < length (da_values ?dn ! i) \<and>
                 dn_or_fill 65535 (da_values ?dn ! i ! j) = rat_of_nat p + t \<and>
                 0 \<le> t \<and> t < 1 \<and> Suc p < length [10, 20, 30, 40, 50 :: rat] \<longrightarrow>
                 da_values r ! i ! j
                   = Some ([10, 20, 30, 40, 50] ! p
                            + t * ([10, 20, 30, 40, 50] ! Suc p - [10, 20, 30, 40, 50] ! p))" and
    at: "\<forall>i j p. i < length (da_values ?dn) \<and> j < length (da_values ?dn ! i) \<and>
                 dn_or_fill 65535 (da_values ?dn ! i ! j) = rat_of_nat p \<and>
                 p < length [10, 20, 30, 40, 50 :: rat] \<longrightarrow>
                 da_values r ! i ! j = Some ([10, 20, 30, 40, 50] ! p)" and
    outside: "\<forall>i j. i < length (da_values ?dn) \<and> j < length (da_values ?dn ! i) \<and>
                 (dn_or_fill 65535 (da_values ?dn ! i ! j) < 0 \<or>
                  rat_of_nat (length [10, 20, 30, 40, 50 :: rat]) - 1
                    < dn_or_fill 65535 (da_values ?dn ! i ! j)) \<longrightarrow>
                 da_values r ! i ! j = None"
    by (elim exE conjE)
  have l1: "length (da_values r) = 1" using len by (simp add: v)
  have l2: "length (da_values r ! 0) = 4" using row [THEN spec, of 0] by (simp add: v)
  have c0: "da_values r ! 0 ! 0 = Some 25"
    using between [THEN spec, of 0, THEN spec, of 0, THEN spec, of 1, THEN spec, of "1 / 2"]
    by (simp add: v dn_or_fill_def)
  have c1: "da_values r ! 0 ! 1 = Some 50"
    using at [THEN spec, of 0, THEN spec, of 1, THEN spec, of 4]
    by (simp add: v dn_or_fill_def)
  have c2: "da_values r ! 0 ! 2 = None"
    using outside [THEN spec, of 0, THEN spec, of 2] by (simp add: v dn_or_fill_def)
  have c3: "da_values r ! 0 ! 3 = None"
    using outside [THEN spec, of 0, THEN spec, of 3] by (simp add: v dn_or_fill_def)
  have lookup: "\<exists>r. calibrate demo_cal ''Channel07'' ''brightness_temperature'' ?dn = Inr r \<and>
        units r = Some ''K'' \<and> length (da_values r) = 1 \<and> length (da_values r ! 0) = 4 \<and>
        da_values r ! 0 ! 0 = Some 25 \<and> da_values r ! 0 ! 1 = Some 50 \<and>
        da_values r ! 0 ! 2 = None \<and> da_values r ! 0 ! 3 = None"
    using ret u l1 l2 c0 c1 c2 c3 by blast
  have dflt: "extract_with_defaults demo_projection demo_interp demo_instance ''Channel02''
       (Some ''reflectance'') None None
     = extract_channel demo_projection demo_interp demo_instance ''Channel02'' ''reflectance''
         None ''nearest''"
    using T [OF T0, THEN conjunct2, THEN conjunct1] .
  have same: "extract_channel demo_projection demo_interp demo_instance ''Channel02''
         ''reflectance'' None ''nearest''
     = extract_channel demo_projection demo_interp demo_instance ''Channel02'' ''reflectance''
         None ''linear''"
    using T [OF T0, THEN conjunct2, THEN conjunct2, THEN conjunct2, THEN conjunct2,
        THEN conjunct2] t1 t2 by simp
  show ?thesis
    using channel07_num h3 h4 lookup t1 t2 dflt same by simp
qed

text \<open>
  Claim C4 as stated makes nearest-neighbour lookup the default. At DN 3/2, between the
  curve's points 20 and 30, the program returns 25, a value that no point of the curve
  has; a nearest-neighbour lookup returns one of the tabulated values.
\<close>

theorem calibrate_lookup_not_nearest_counterexample:
  "calibrate demo_cal ''Channel07'' ''brightness_temperature''
      (demo_dn ''NOMChannel07'' 65535 [[Some (3 / 2)]])
     = Inr \<lparr>da_values = [[Some 25]], da_name = Some ''Channel07_brightness_temperature'',
            FillValue = None, units = Some ''K''\<rparr> \<and>
   cal_tables demo_cal ''CALChannel07'' = Some [10, 20, 30, 40, 50] \<and>
   (25 :: rat) \<notin> set [10, 20, 30, 40, 50]"
proof -
  have fl: "\<lfloor>3 / 2 :: rat\<rfloor> = 1" by (rule floor_unique) simp_all
  show ?thesis
    by (simp add: calibrate_def channel07_num demo_cal_def demo_dn_def fillna_def
        interp_linear_def Let_def fl)
qed

text \<open>
  Claim C1 at a failing input. The linear branch masks the fill value before the
  arithmetic (line 99); the lookup branch (lines 102 to 106) has no such mask and
  interpolates the curve at the fill value itself. With fill value 3 and a five-point
  curve, the fill entry and the NaN entry (which line 95 turns into the fill value) both
  come out as the finite temperature 40.
\<close>

theorem calibrate_fill_brightness_temperature:
  "calibrate demo_cal ''Channel07'' ''brightness_temperature''
      (demo_dn ''NOMChannel07'' 3 [[Some 3, Some 1, None]])
     = Inr \<lparr>da_values = [[Some 40, Some 20, Some 40]],
            da_name = Some ''Channel07_brightness_temperature'',
            FillValue = None, units = Some ''K''\<rparr>"
  by (simp add: calibrate_def channel07_num demo_cal_def demo_dn_def fillna_def
      interp_linear_def Let_def)

subsection \<open>The target grid, construction and extraction\<close>

text \<open>
  Claim C10 at a failing input. For \<^verbatim>\<open>geo_desc = [16, 16.1, 100, 100.1, 0.1]\<close> the step
  divides both extents at the scale of thousandths of a degree. Line 52 computes
  \<open>1000 * 16.1\<close> in floats, which is 16100.000000000002, and does not round it, though the
  comment of line 51 announces the rounding. The latitude axis is the float 16.1 followed
  by 16.000000000000004: it starts at \<open>lat_N\<close> and decreases, but \<open>lat_S = 16\<close> is not one of
  its points. The longitude axis 100, 100.1 has both its ends.
\<close>

theorem geo_axes_endpoint_lost:
  "geo_axes [16, fl (161 / 10), 100, fl (1001 / 10), fl (1 / 10)]
     = Inr ([fl (161 / 10), 4503599627370497 / 281474976710656], [100, fl (1001 / 10)]) \<and>
   1000 * (161 / 10 - 16) = rat_of_nat 1 * (1000 * (1 / 10 :: rat)) \<and>
   fl (1000 * fl (161 / 10)) = 16100 + 1 / 549755813888 \<and>
   (4503599627370497 / 281474976710656 :: rat) = 16 + 1 / 281474976710656 \<and>
   (16 :: rat) \<notin> set [fl (161 / 10), 4503599627370497 / 281474976710656]"
proof -
  have a: "geo_axes [16, fl (161 / 10), 100, fl (1001 / 10), fl (1 / 10)]
     = Inr ([fl (161 / 10), 4503599627370497 / 281474976710656], [100, fl (1001 / 10)])"
    by (simp add: geo_axes_def arange_def float_eval)
  have b: "1000 * (161 / 10 - 16) = rat_of_nat 1 * (1000 * (1 / 10 :: rat))" by simp
  have c: "fl (1000 * fl (161 / 10)) = 16100 + 1 / 549755813888"
    by (simp add: float_eval)
  have d: "(4503599627370497 / 281474976710656 :: rat) = 16 + 1 / 281474976710656" by simp
  have e: "(16 :: rat) \<notin> set [fl (161 / 10), 4503599627370497 / 281474976710656]"
    by (simp add: float_eval)
  show ?thesis by (intro conjI) (rule a b c d e)+
qed

text \<open>
  Claim C6 at a failing input. The comment of line 51 announces a multiplication by 1000
  followed by rounding to an integer; line 52 multiplies and does not round. For
  \<^verbatim>\<open>geo_desc = [10, 10.2505, 100, 100.1, 0.1]\<close> the latitude axis is the floats 10.2505,
  10.1505, 10.0505: the fourth decimal is still there, and the first value differs from
  10.25, the value that truncation to three decimals gives.
\<close>

theorem geo_axes_not_quantized:
  "geo_axes [10, fl (20501 / 2000), 100, fl (1001 / 10), fl (1 / 10)]
     = Inr ([fl (20501 / 2000), fl (20301 / 2000), fl (20101 / 2000)], [100, fl (1001 / 10)]) \<and>
   \<bar>fl (20501 / 2000) - 20501 / 2000\<bar> < 1 / 10 ^ 15 \<and>
   rat_of_int \<lfloor>fl (1000 * fl (20501 / 2000))\<rfloor> / 1000 = 41 / 4 \<and>
   fl (20501 / 2000) \<noteq> 41 / 4"
proof -
  have a: "geo_axes [10, fl (20501 / 2000), 100, fl (1001 / 10), fl (1 / 10)]
     = Inr ([fl (20501 / 2000), fl (20301 / 2000), fl (20101 / 2000)], [100, fl (1001 / 10)])"
    by (simp add: geo_axes_def arange_def float_eval)
  have b: "\<bar>fl (20501 / 2000) - 20501 / 2000\<bar> < 1 / 10 ^ 15"
    by (simp add: float_eval)
  have c: "rat_of_int \<lfloor>fl (1000 * fl (20501 / 2000))\<rfloor> / 1000 = 41 / 4"
    by (simp add: float_eval)
  have d: "fl (20501 / 2000) \<noteq> 41 / 4"
    by (simp add: float_eval)
  show ?thesis by (intro conjI) (rule a b c d)+
qed



text \<open>
  Claim C5, as amended. \<^verbatim>\<open>extract\<close> resamples the raw DN array exactly when the instance
  holds a grid after the optional update of line 71: the grid supplied with the call, or
  else the grid cached by the constructor or an earlier call. With no grid supplied and
  none cached the native array goes to \<^verbatim>\<open>calibrate\<close> as it is; with no grid supplied and a
  cached one the array is resampled at the cached lines and columns; a newly supplied grid
  is first cached and then used like a cached one. A call that supplies a grid returns
  the same result whatever consistent grid was cached before. (\<open>set_geo_desc\<close> returning
  \<open>(self', None)\<close> is the call that raises nothing.)
\<close>

theorem extract_resampling:
  "(\<not> truthy g \<and> \<not> truthy (geo_desc self) \<longrightarrow>
      extract_channel P R self ch q g m =
        (self, case ds self (''NOM'' @ ch) of
                 None \<Rightarrow> Inl KeyError
               | Some dn \<Rightarrow>
                   if has_shape (da_values dn) (length [line_begin self..line_end self])
                        (length [column_begin self..column_end self])
                   then calibrate (cal self) ch q dn else Inl ShapeError)) \<and>
   (\<not> truthy g \<and> truthy (geo_desc self) \<and> line self = Some la \<and> column self = Some ca \<and>
    ds self (''NOM'' @ ch) = Some dn \<and>
    has_shape (da_values dn) (length [line_begin self..line_end self])
      (length [column_begin self..column_end self]) \<longrightarrow>
      extract_channel P R self ch q g m =
        (self, case R m [line_begin self..line_end self] [column_begin self..column_end self]
                      (da_values dn) (ga_values la) (ga_values ca) of
                 Inl e \<Rightarrow> Inl e
               | Inr v \<Rightarrow> calibrate (cal self) ch q (dn\<lparr>da_values := v\<rparr>))) \<and>
   (truthy g \<and> g \<noteq> geo_desc self \<and> set_geo_desc P self g = (self', None) \<longrightarrow>
      geo_desc self' = g \<and>
      extract_channel P R self ch q g m = extract_channel P R self' ch q None m) \<and>
   (truthy g \<and> cache_consistent P self \<and>
    cache_consistent P (self\<lparr>line := l2, column := c2, geo_desc := g2\<rparr>) \<longrightarrow>
      snd (extract_channel P R self ch q g m) =
      snd (extract_channel P R (self\<lparr>line := l2, column := c2, geo_desc := g2\<rparr>) ch q g m))"
proof (intro conjI impI)
  assume a: "\<not> truthy g \<and> \<not> truthy (geo_desc self)"
  then show "extract_channel P R self ch q g m =
        (self, case ds self (''NOM'' @ ch) of
                 None \<Rightarrow> Inl KeyError
               | Some dn \<Rightarrow>
                   if has_shape (da_values dn) (length [line_begin self..line_end self])
                        (length [column_begin self..column_end self])
                   then calibrate (cal self) ch q dn else Inl ShapeError)"
    by (simp add: extract_no_update extract_dn_values_def Let_def split: option.splits)
next
  assume a: "\<not> truthy g \<and> truthy (geo_desc self) \<and> line self = Some la \<and> column self = Some ca \<and>
    ds self (''NOM'' @ ch) = Some dn \<and>
    has_shape (da_values dn) (length [line_begin self..line_end self])
      (length [column_begin self..column_end self])"
  then show "extract_channel P R self ch q g m =
        (self, case R m [line_begin self..line_end self] [column_begin self..column_end self]
                      (da_values dn) (ga_values la) (ga_values ca) of
                 Inl e \<Rightarrow> Inl e
               | Inr v \<Rightarrow> calibrate (cal self) ch q (dn\<lparr>da_values := v\<rparr>))"
    by (simp add: extract_no_update extract_dn_values_def Let_def split: sum.splits)
next
  assume a: "truthy g \<and> g \<noteq> geo_desc self \<and> set_geo_desc P self g = (self', None)"
  then show "geo_desc self' = g" using set_geo_desc_frame [where P = P and self = self and g = g and self' = self'
        and r = None] by simp
next
  assume a: "truthy g \<and> g \<noteq> geo_desc self \<and> set_geo_desc P self g = (self', None)"
  have "\<not> truthy None" by (simp add: truthy_def)
  then have "extract_channel P R self' ch q None m =
     (self', case extract_dn_values R self' ch m of
              Inl e \<Rightarrow> Inl e
            | Inr dn_values \<Rightarrow> calibrate (cal self') ch q dn_values)"
    by (simp add: extract_no_update)
  then show "extract_channel P R self ch q g m = extract_channel P R self' ch q None m"
    using a by (simp add: extract_update)
next
  assume a: "truthy g \<and> cache_consistent P self \<and>
    cache_consistent P (self\<lparr>line := l2, column := c2, geo_desc := g2\<rparr>)"
  obtain s1 r1 where s1: "set_geo_desc P self g = (s1, r1)" by (cases "set_geo_desc P self g")
  obtain s2 r2 where
    s2: "set_geo_desc P (self\<lparr>line := l2, column := c2, geo_desc := g2\<rparr>) g = (s2, r2)"
    by (cases "set_geo_desc P (self\<lparr>line := l2, column := c2, geo_desc := g2\<rparr>) g")
  have r: "r2 = r1" and st: "r1 = None \<longrightarrow> s2 = s1"
    using set_geo_desc_overwrite [where P = P and self = self and l = l2 and c = c2
        and x = g2 and g = g] s1 s2 by simp_all
  show "snd (extract_channel P R self ch q g m) =
      snd (extract_channel P R (self\<lparr>line := l2, column := c2, geo_desc := g2\<rparr>) ch q g m)"
    using a r st by (cases r1) (simp_all add: extract_supplied s1 s2)
qed

text \<open>The instance with the grid \<open>[0, 1, 0, 1, 1]\<close> cached, asked without a grid, and the
  instances with and without that cache, asked with it.\<close>

theorem extract_resampling_witness:
  "\<not> truthy None \<and> truthy (geo_desc demo_cached) \<and>
   ds demo_cached (''NOM'' @ ''Channel02'')
     = Some (demo_dn ''NOMChannel02'' 65535 [[Some 1, Some 2], [Some 3, Some 4]]) \<and>
   extract_channel demo_projection demo_interp demo_cached ''Channel02'' ''dn'' None ''nearest''
     = (demo_cached,
        Inr \<lparr>da_values = [[Some 3, Some 4], [Some 1, Some 2]], da_name = Some ''NOMChannel02'',
             FillValue = None, units = Some ''DN''\<rparr>) \<and>
   truthy (Some [0, 1, 0, 1, 1]) \<and>
   cache_consistent demo_projection demo_instance \<and>
   cache_consistent demo_projection demo_cached \<and>
   snd (extract_channel demo_projection demo_interp demo_instance ''Channel02'' ''reflectance''
          (Some [0, 1, 0, 1, 1]) ''nearest'')
     = snd (extract_channel demo_projection demo_interp demo_cached ''Channel02'' ''reflectance''
          (Some [0, 1, 0, 1, 1]) ''nearest'')"
proof -
  have t1: "\<not> truthy None" and t2: "truthy (geo_desc demo_cached)"
    and t3: "truthy (Some [0, 1, 0, 1, 1])"
    by (simp_all add: truthy_def demo_cached_def)
  have la: "line demo_cached = Some \<lparr>ga_values = [[Some 1, Some 1], [Some 0, Some 0]],
                      ga_lat = [1, 0], ga_lon = [0, 1], ga_name = ''line''\<rparr>"
    and ca: "column demo_cached = Some \<lparr>ga_values = [[Some 0, Some 1], [Some 0, Some 1]],
                        ga_lat = [1, 0], ga_lon = [0, 1], ga_name = ''column''\<rparr>"
    by (simp_all add: demo_cached_def)
  have dn: "ds demo_cached (''NOM'' @ ''Channel02'')
     = Some (demo_dn ''NOMChannel02'' 65535 [[Some 1, Some 2], [Some 3, Some 4]])"
    by (simp add: demo_cached_def demo_instance_def demo_product_def)
  have win: "[line_begin demo_cached..line_end demo_cached] = [0..1]"
       "[column_begin demo_cached..column_end demo_cached] = [0..1]"
    by (simp_all add: demo_cached_def demo_instance_def)
  have up: "[0..1::int] = [0, 1]" by (simp add: upto.simps)
  have sh: "has_shape (da_values (demo_dn ''NOMChannel02'' 65535 [[Some 1, Some 2], [Some 3, Some 4]]))
      (length [line_begin demo_cached..line_end demo_cached])
      (length [column_begin demo_cached..column_end demo_cached])"
    unfolding win by (simp add: has_shape_def demo_dn_def up)
  have val: "da_values (demo_dn ''NOMChannel02'' 65535 [[Some 1, Some 2], [Some 3, Some 4]])
      = [[Some 1, Some 2], [Some 3, Some 4]]"
    by (simp add: demo_dn_def)
  note I =
    extract_resampling [where g = None and self = demo_cached and P = demo_projection
      and R = demo_interp and ch = "''Channel02''" and q = "''dn''" and m = "''nearest''"
      and la = "\<lparr>ga_values = [[Some 1, Some 1], [Some 0, Some 0]],
                      ga_lat = [1, 0], ga_lon = [0, 1], ga_name = ''line''\<rparr>"
      and ca = "\<lparr>ga_values = [[Some 0, Some 1], [Some 0, Some 1]],
                        ga_lat = [1, 0], ga_lon = [0, 1], ga_name = ''column''\<rparr>"
      and dn = "demo_dn ''NOMChannel02'' 65535 [[Some 1, Some 2], [Some 3, Some 4]]",
      THEN conjunct2, THEN conjunct1]
  have "extract_channel demo_projection demo_interp demo_cached ''Channel02'' ''dn'' None ''nearest''
     = (demo_cached,
        case demo_interp ''nearest'' [line_begin demo_cached..line_end demo_cached]
               [column_begin demo_cached..column_end demo_cached]
               (da_values (demo_dn ''NOMChannel02'' 65535 [[Some 1, Some 2], [Some 3, Some 4]]))
               [[Some 1, Some 1], [Some 0, Some 0]] [[Some 0, Some 1], [Some 0, Some 1]] of
          Inl e \<Rightarrow> Inl e
        | Inr v \<Rightarrow> calibrate (cal demo_cached) ''Channel02'' ''dn''
                    (demo_dn ''NOMChannel02'' 65535 [[Some 1, Some 2], [Some 3, Some 4]]
                       \<lparr>da_values := v\<rparr>))"
    using I t1 t2 la ca dn sh by simp
  then have cached:
    "extract_channel demo_projection demo_interp demo_cached ''Channel02'' ''dn'' None ''nearest''
     = (demo_cached,
        Inr \<lparr>da_values = [[Some 3, Some 4], [Some 1, Some 2]], da_name = Some ''NOMChannel02'',
             FillValue = None, units = Some ''DN''\<rparr>)"
    unfolding win val demo_resample by (simp add: calibrate_dn demo_dn_def)
  note J =
    extract_resampling [where g = "Some [0, 1, 0, 1, 1]" and self = demo_instance
      and P = demo_projection and R = demo_interp and ch = "''Channel02''"
      and q = "''reflectance''" and m = "''nearest''"
      and ?l2.0 = "Some \<lparr>ga_values = [[Some 1, Some 1], [Some 0, Some 0]],
                      ga_lat = [1, 0], ga_lon = [0, 1], ga_name = ''line''\<rparr>"
      and ?c2.0 = "Some \<lparr>ga_values = [[Some 0, Some 1], [Some 0, Some 1]],
                        ga_lat = [1, 0], ga_lon = [0, 1], ga_name = ''column''\<rparr>"
      and ?g2.0 = "Some [0, 1, 0, 1, 1]",
      THEN conjunct2, THEN conjunct2, THEN conjunct2, folded demo_cached_def]
  have same: "snd (extract_channel demo_projection demo_interp demo_instance ''Channel02''
          ''reflectance'' (Some [0, 1, 0, 1, 1]) ''nearest'')
     = snd (extract_channel demo_projection demo_interp demo_cached ''Channel02'' ''reflectance''
          (Some [0, 1, 0, 1, 1]) ''nearest'')"
    using J t3 demo_instance_consistent demo_cached_consistent by simp
  show ?thesis
    using t1 t2 t3 dn cached same demo_instance_consistent demo_cached_consistent by simp
qed

text \<open>
  Claim C5 as stated ties resampling to a grid supplied with the call, and makes the
  result independent of the cache. Two instances of the same product, one constructed with
  the grid \<open>[0, 1, 0, 1, 1]\<close> and one without, are asked for the raw DN of channel 2 with no
  grid: the first returns the array resampled on its cached grid, the second the native
  array.
\<close>

theorem extract_cached_grid_counterexample:
  "demo_extract (Some [0, 1, 0, 1, 1]) None = Inr [[Some 3, Some 4], [Some 1, Some 2]] \<and>
   demo_extract None None = Inr [[Some 1, Some 2], [Some 3, Some 4]] \<and>
   [[Some 3, Some 4], [Some 1, Some (2 :: rat)]] \<noteq> [[Some 1, Some 2], [Some 3, Some 4]]"
proof -
  have a: "demo_extract (Some [0, 1, 0, 1, 1]) None = Inr [[Some 3, Some 4], [Some 1, Some 2]]"
    by (simp add: demo_extract_def demo_cached_constructed demo_extract_cached)
  have b: "demo_extract None None = Inr [[Some 1, Some 2], [Some 3, Some 4]]"
    by (simp add: demo_extract_def demo_instance_constructed demo_extract_native)
  have c: "[[Some 3, Some 4], [Some 1, Some (2 :: rat)]] \<noteq> [[Some 1, Some 2], [Some 3, Some 4]]"
    by simp
  show ?thesis by (intro conjI) (rule a b c)+
qed

end
